theory Spec2Isabelle
  imports Main "HOL-Library.Multiset"
begin

section \<open>Python values handled by the calendar analyzer\<close>

text \<open>
  The analyzer (\<^verbatim>\<open>src/calendar_analyzer.py\<close>, class \<^verbatim>\<open>ICSAnalyzer\<close>) works on
  event dictionaries whose date fields hold \<^verbatim>\<open>datetime\<close> objects. A \<^verbatim>\<open>datetime\<close> is
  modelled by its civil fields and by its tzinfo, which is \<open>None\<close> for a naive datetime.
  The tzinfo of an aware datetime is a pair: a number that stands for the tzinfo object
  (two datetimes carry the same object exactly when the numbers are equal), and the UTC
  offset in seconds that the object gives for this datetime. One object may give different
  offsets to different datetimes, as a zone with daylight saving time does. The fields are
  taken to lie in the ranges Python enforces when it builds the object, and \<^verbatim>\<open>fold\<close> is
  left out.
\<close>

record pydatetime =
  dt_year :: nat
  dt_month :: nat
  dt_day :: nat
  dt_hour :: nat
  dt_minute :: nat
  dt_second :: nat
  dt_microsecond :: nat
  dt_tzinfo :: "(nat \<times> int) option"

text \<open>\<^verbatim>\<open>d.utcoffset()\<close>\<close>

definition dt_utcoffset :: "pydatetime \<Rightarrow> int option" where
  "dt_utcoffset d = map_option snd (dt_tzinfo d)"

datatype pyerror = TypeError | KeyError | ValueError | AttributeError | ICSAnalysisError

text \<open>\<^verbatim>\<open>datetime.min\<close>, the sentinel of the sort keys: naive, 0001-01-01 00:00:00.\<close>

definition datetime_min :: pydatetime where
  "datetime_min = \<lparr>dt_year = 1, dt_month = 1, dt_day = 1, dt_hour = 0, dt_minute = 0,
     dt_second = 0, dt_microsecond = 0, dt_tzinfo = None\<rparr>"

definition is_leap :: "nat \<Rightarrow> bool" where
  "is_leap y = (y mod 4 = 0 \<and> (y mod 100 \<noteq> 0 \<or> y mod 400 = 0))"

definition days_before_year :: "nat \<Rightarrow> int" where
  "days_before_year y = (let y1 = int y - 1 in y1 * 365 + y1 div 4 - y1 div 100 + y1 div 400)"

definition days_in_months :: "nat \<Rightarrow> nat list" where
  "days_in_months y = [31, if is_leap y then 29 else 28, 31, 30, 31, 30, 31, 31, 30, 31, 30, 31]"

definition days_before_month :: "nat \<Rightarrow> nat \<Rightarrow> int" where
  "days_before_month y m = int (sum_list (take (m - 1) (days_in_months y)))"

definition toordinal :: "pydatetime \<Rightarrow> int" where
  "toordinal d = days_before_year (dt_year d) + days_before_month (dt_year d) (dt_month d)
     + int (dt_day d)"

text \<open>The wall-clock reading of a datetime in microseconds since the start of day 0.\<close>

definition wall_us :: "pydatetime \<Rightarrow> int" where
  "wall_us d = ((toordinal d * 86400 + int (dt_hour d) * 3600 + int (dt_minute d) * 60
     + int (dt_second d)) * 1000000) + int (dt_microsecond d)"

text \<open>
  \<^verbatim>\<open>a - b\<close> on two datetimes: a timedelta, held as its total of microseconds. Two naive
  datetimes, and two aware ones that carry the same tzinfo object, are subtracted by their
  wall clocks, whatever the offsets; two aware ones of different tzinfo objects by their
  instants. Python raises \<^verbatim>\<open>TypeError\<close> when one operand is naive and the other aware.
\<close>

definition dt_sub :: "pydatetime \<Rightarrow> pydatetime \<Rightarrow> pyerror + int" where
  "dt_sub a b =
     (case (dt_tzinfo a, dt_tzinfo b) of
        (None, None) \<Rightarrow> Inr (wall_us a - wall_us b)
      | (Some (i, x), Some (j, y)) \<Rightarrow>
          if i = j then Inr (wall_us a - wall_us b)
          else Inr (wall_us a - wall_us b + (y - x) * 1000000)
      | _ \<Rightarrow> Inl TypeError)"

definition dt_fields :: "pydatetime \<Rightarrow> nat \<times> nat \<times> nat \<times> nat \<times> nat \<times> nat \<times> nat" where
  "dt_fields d = (dt_year d, dt_month d, dt_day d, dt_hour d, dt_minute d, dt_second d,
     dt_microsecond d)"

text \<open>
  \<^verbatim>\<open>a == b\<close> on two datetimes never raises: a naive and an aware datetime are unequal,
  two naive datetimes and two aware ones of one tzinfo object or of one offset are compared
  field by field, two aware datetimes of different objects and offsets are equal when their
  difference is zero.
\<close>

definition dt_eq :: "pydatetime \<Rightarrow> pydatetime \<Rightarrow> bool" where
  "dt_eq a b =
     (case (dt_tzinfo a, dt_tzinfo b) of
        (None, None) \<Rightarrow> dt_fields a = dt_fields b
      | (Some (i, x), Some (j, y)) \<Rightarrow>
          if i = j \<or> x = y then dt_fields a = dt_fields b else dt_sub a b = Inr 0
      | _ \<Rightarrow> False)"

text \<open>
  The position of a datetime on the time line: the wall-clock reading, moved to UTC for an
  aware one.
\<close>

definition timestamp :: "pydatetime \<Rightarrow> int" where
  "timestamp d = wall_us d - (case dt_utcoffset d of None \<Rightarrow> 0 | Some x \<Rightarrow> x * 1000000)"

text \<open>
  \<^verbatim>\<open>a < b\<close> on two datetimes: by the wall clocks for two naive datetimes and for two aware
  ones of one tzinfo object, by the instants for two aware ones of different objects, and
  \<^verbatim>\<open>TypeError\<close> for a naive and an aware one.
\<close>

definition dt_lt :: "pydatetime \<Rightarrow> pydatetime \<Rightarrow> pyerror + bool" where
  "dt_lt a b =
     (case (dt_tzinfo a, dt_tzinfo b) of
        (None, None) \<Rightarrow> Inr (wall_us a < wall_us b)
      | (Some (i, x), Some (j, y)) \<Rightarrow>
          if i = j then Inr (wall_us a < wall_us b) else Inr (timestamp a < timestamp b)
      | _ \<Rightarrow> Inl TypeError)"

definition digit :: "nat \<Rightarrow> char" where
  "digit n = ''0123456789'' ! (n mod 10)"

definition pad2 :: "nat \<Rightarrow> string" where
  "pad2 n = [digit (n div 10), digit n]"

definition pad4 :: "nat \<Rightarrow> string" where
  "pad4 n = [digit (n div 1000), digit (n div 100), digit (n div 10), digit n]"

definition pad6 :: "nat \<Rightarrow> string" where
  "pad6 n = [digit (n div 100000), digit (n div 10000), digit (n div 1000), digit (n div 100),
     digit (n div 10), digit n]"

definition format_offset :: "int option \<Rightarrow> string" where
  "format_offset off =
     (case off of
        None \<Rightarrow> []
      | Some s \<Rightarrow>
          (let a = nat \<bar>s\<bar>; hh = a div 3600; mm = (a mod 3600) div 60; ss = a mod 60
           in (if s < 0 then ''-'' else ''+'') @ pad2 hh @ '':'' @ pad2 mm
              @ (if ss \<noteq> 0 then '':'' @ pad2 ss else [])))"

text \<open>
  \<^verbatim>\<open>datetime.isoformat(sep)\<close>; \<^verbatim>\<open>isoformat()\<close> separates date and time by \<^verbatim>\<open>T\<close>,
  \<^verbatim>\<open>str()\<close> by a blank.
\<close>

definition dt_format :: "char \<Rightarrow> pydatetime \<Rightarrow> string" where
  "dt_format sep d =
     pad4 (dt_year d) @ ''-'' @ pad2 (dt_month d) @ ''-'' @ pad2 (dt_day d) @ [sep]
     @ pad2 (dt_hour d) @ '':'' @ pad2 (dt_minute d) @ '':'' @ pad2 (dt_second d)
     @ (if dt_microsecond d \<noteq> 0 then ''.'' @ pad6 (dt_microsecond d) else [])
     @ format_offset (dt_utcoffset d)"

definition isoformat :: "pydatetime \<Rightarrow> string" where
  "isoformat d = dt_format (CHR ''T'') d"

definition dt_str :: "pydatetime \<Rightarrow> string" where
  "dt_str d = dt_format (CHR '' '') d"

text \<open>
  The values an event dictionary holds under the keys the engine reads: \<^verbatim>\<open>None\<close>, a
  bool, an integer, a string or a datetime. (An event made from an AWS document carries
  whatever the document has under \<^verbatim>\<open>summary\<close> and \<^verbatim>\<open>description\<close>; a decoded number
  is held as an integer, and lists and dictionaries as values are left out.)
\<close>

datatype pyval = PNone | PBool bool | PInt int | PStr string | PDatetime pydatetime

fun truthy :: "pyval \<Rightarrow> bool" where
  "truthy PNone = False"
| "truthy (PBool b) = b"
| "truthy (PInt n) = (n \<noteq> 0)"
| "truthy (PStr s) = (s \<noteq> [])"
| "truthy (PDatetime d) = True"

text \<open>The decimal digits of a natural number, and \<^verbatim>\<open>str()\<close>.\<close>

fun decimal :: "nat \<Rightarrow> string" where
  "decimal n = (if n < 10 then [digit n] else decimal (n div 10) @ [digit n])"

declare decimal.simps [simp del]

fun py_str :: "pyval \<Rightarrow> string" where
  "py_str PNone = ''None''"
| "py_str (PBool b) = (if b then ''True'' else ''False'')"
| "py_str (PInt n) = (if n < 0 then ''-'' @ decimal (nat (- n)) else decimal (nat n))"
| "py_str (PStr s) = s"
| "py_str (PDatetime d) = dt_str d"

text \<open>\<^verbatim>\<open>a != b\<close>. A bool is an integer to Python: \<^verbatim>\<open>True == 1\<close> and \<^verbatim>\<open>False == 0\<close>.\<close>

fun py_ne :: "pyval \<Rightarrow> pyval \<Rightarrow> bool" where
  "py_ne PNone PNone = False"
| "py_ne (PBool a) (PBool b) = (a \<noteq> b)"
| "py_ne (PInt a) (PInt b) = (a \<noteq> b)"
| "py_ne (PBool a) (PInt b) = ((if a then 1 else 0) \<noteq> b)"
| "py_ne (PInt a) (PBool b) = (a \<noteq> (if b then 1 else 0))"
| "py_ne (PStr a) (PStr b) = (a \<noteq> b)"
| "py_ne (PDatetime a) (PDatetime b) = (\<not> dt_eq a b)"
| "py_ne _ _ = True"

text \<open>
  \<^verbatim>\<open>a - b\<close> as the classifier applies it, to the two dates of an event after it has
  tested both for truth: they are datetimes there.
\<close>

fun py_sub :: "pyval \<Rightarrow> pyval \<Rightarrow> pyerror + int" where
  "py_sub (PDatetime a) (PDatetime b) = dt_sub a b"
| "py_sub _ _ = Inl TypeError"

fun is_datetime :: "pyval \<Rightarrow> bool" where
  "is_datetime (PDatetime d) = True"
| "is_datetime _ = False"

section \<open>Events\<close>

text \<open>
  An event dictionary. \<^verbatim>\<open>extract_events\<close> builds it from a calendar file and
  \<^verbatim>\<open>normalize_aws_calendar_to_ics\<close> from an AWS document: \<^verbatim>\<open>uid\<close> is a string (empty
  when the component has none; the \<^verbatim>\<open>id\<close> of an AWS record is taken to be a string),
  \<^verbatim>\<open>dtstart\<close> and \<^verbatim>\<open>dtend\<close> hold a datetime or \<^verbatim>\<open>None\<close>. The engine reads the text fields \<^verbatim>\<open>summary\<close>, \<^verbatim>\<open>description\<close> and
  \<^verbatim>\<open>categories\<close> with \<^verbatim>\<open>.get\<close>, so a dictionary that lacks one of these keys is accepted
  too: a text field of the record is \<open>None\<close> when the key is missing and \<open>Some v\<close> when the
  dictionary holds the value \<open>v\<close> under it, which is a string in an event of a calendar file
  and may be \<^verbatim>\<open>None\<close> (\<open>Some PNone\<close>) or a number in an event of an AWS document.
\<close>

record event =
  uid :: string
  summary :: "pyval option"
  description :: "pyval option"
  categories :: "pyval option"
  dtstart :: "pydatetime option"
  dtend :: "pydatetime option"

text \<open>The dictionary view of the record: \<open>None\<close> when the key is not in the dictionary.\<close>

definition event_item :: "event \<Rightarrow> string \<Rightarrow> pyval option" where
  "event_item e k =
     (if k = ''uid'' then Some (PStr (uid e))
      else if k = ''summary'' then summary e
      else if k = ''description'' then description e
      else if k = ''categories'' then categories e
      else if k = ''dtstart'' then Some (case dtstart e of None \<Rightarrow> PNone | Some d \<Rightarrow> PDatetime d)
      else if k = ''dtend'' then Some (case dtend e of None \<Rightarrow> PNone | Some d \<Rightarrow> PDatetime d)
      else None)"

text \<open>\<^verbatim>\<open>event.get(k)\<close> and \<^verbatim>\<open>event.get(k, default)\<close>.\<close>

definition event_get :: "event \<Rightarrow> string \<Rightarrow> pyval" where
  "event_get e k = (case event_item e k of None \<Rightarrow> PNone | Some v \<Rightarrow> v)"

definition event_get_default :: "event \<Rightarrow> string \<Rightarrow> pyval \<Rightarrow> pyval" where
  "event_get_default e k d = (case event_item e k of None \<Rightarrow> d | Some v \<Rightarrow> v)"

section \<open>Change classifier\<close>

datatype change_type = Added | Deleted | Modified | Moved | DurationChanged | Unchanged

text \<open>
  \<^verbatim>\<open>classify_event_changes\<close>. The body runs inside \<^verbatim>\<open>try\<close>; its
  \<^verbatim>\<open>except Exception\<close> branch returns \<^verbatim>\<open>'modified'\<close>. The only operations of the body
  that can raise are the two subtractions.
\<close>

definition properties_to_check :: "string list" where
  "properties_to_check = [''summary'', ''description'', ''categories'']"

definition classify_event_changes :: "event \<Rightarrow> event \<Rightarrow> change_type" where
  "classify_event_changes event1 event2 =
     (let dtstart_changed = py_ne (event_get event1 ''dtstart'') (event_get event2 ''dtstart'');
          dtend_changed = py_ne (event_get event1 ''dtend'') (event_get event2 ''dtend'')
      in if dtstart_changed \<or> dtend_changed then
           (if truthy (event_get event1 ''dtstart'') \<and> truthy (event_get event1 ''dtend'')
               \<and> truthy (event_get event2 ''dtstart'') \<and> truthy (event_get event2 ''dtend'')
            then
              (case py_sub (event_get event1 ''dtend'') (event_get event1 ''dtstart'') of
                 Inl exn \<Rightarrow> Modified
               | Inr duration1 \<Rightarrow>
                   (case py_sub (event_get event2 ''dtend'') (event_get event2 ''dtstart'') of
                      Inl exn \<Rightarrow> Modified
                    | Inr duration2 \<Rightarrow>
                        if duration1 \<noteq> duration2 then DurationChanged else Moved))
            else Moved)
         else if list_ex (\<lambda>prop. py_str (event_get_default event1 prop (PStr []))
                                 \<noteq> py_str (event_get_default event2 prop (PStr [])))
                   properties_to_check
         then Modified
         else Unchanged)"

section \<open>Property differ\<close>

text \<open>
  One entry of the list \<^verbatim>\<open>_get_detailed_property_changes\<close> returns. \<open>old_value\<close> and
  \<open>new_value\<close> are \<open>None\<close> where the dictionary entry would hold Python's \<^verbatim>\<open>None\<close>.
\<close>

record property_change =
  pc_property :: string
  old_value :: "string option"
  new_value :: "string option"
  pc_change_type :: string

definition compare_props :: "string list" where
  "compare_props = [''summary'', ''description'', ''categories'', ''dtstart'', ''dtend'']"

text \<open>The body of the loop over \<open>compare_props\<close>: the entries appended for one property.\<close>

definition property_changes_of :: "string \<Rightarrow> pyval \<Rightarrow> pyval \<Rightarrow> property_change list" where
  "property_changes_of prop value1 value2 =
     (if is_datetime value1 \<and> is_datetime value2 then
        (if py_ne value1 value2 then
           [\<lparr>pc_property = prop,
             old_value = (if truthy value1 then Some (case value1 of PDatetime d \<Rightarrow> isoformat d | _ \<Rightarrow> []) else None),
             new_value = (if truthy value2 then Some (case value2 of PDatetime d \<Rightarrow> isoformat d | _ \<Rightarrow> []) else None),
             pc_change_type = ''datetime''\<rparr>]
         else [])
      else
        (let str_value1 = (if truthy value1 then py_str value1 else []);
             str_value2 = (if truthy value2 then py_str value2 else [])
         in if str_value1 \<noteq> str_value2 then
              [\<lparr>pc_property = prop, old_value = Some str_value1, new_value = Some str_value2,
                pc_change_type = ''string''\<rparr>]
            else []))"

definition get_detailed_property_changes :: "event \<Rightarrow> event \<Rightarrow> property_change list" where
  "get_detailed_property_changes event1 event2 =
     concat (map (\<lambda>prop. property_changes_of prop (event_get event1 prop) (event_get event2 prop))
       compare_props)"

section \<open>Detailed event matcher\<close>

text \<open>
  A Python dictionary keeps its keys in insertion order; storing under a key that is
  already there replaces the value and leaves the key where it is. It is modelled as an
  association list with distinct keys.
\<close>

definition dict_set :: "('k \<times> 'v) list \<Rightarrow> 'k \<Rightarrow> 'v \<Rightarrow> ('k \<times> 'v) list" where
  "dict_set d k v =
     (if k \<in> set (map fst d) then map (\<lambda>(k', v'). if k' = k then (k', v) else (k', v')) d
      else d @ [(k, v)])"

text \<open>\<^verbatim>\<open>{event['uid']: event for event in events if event['uid']}\<close>\<close>

definition uid_step :: "(string \<times> event) list \<Rightarrow> event \<Rightarrow> (string \<times> event) list" where
  "uid_step d event = (if uid event \<noteq> [] then dict_set d (uid event) event else d)"

definition by_uid :: "event list \<Rightarrow> (string \<times> event) list" where
  "by_uid events = foldl uid_step [] events"

text \<open>
  The entries of the lists in \<^verbatim>\<open>changes\<close>: \<^verbatim>\<open>{'event', 'change_type', 'uid'}\<close> for an added
  or deleted event, \<^verbatim>\<open>{'event1', 'event2', 'changes', 'change_type', 'uid'}\<close> for a pair.
\<close>

datatype change =
    EventChange event change_type string
  | PairChange event event "property_change list" change_type string

record changes =
  added :: "change list"
  deleted :: "change list"
  modified :: "change list"
  moved :: "change list"
  duration_changed :: "change list"

definition no_changes :: changes where
  "no_changes = \<lparr>added = [], deleted = [], modified = [], moved = [], duration_changed = []\<rparr>"

text \<open>
  \<^verbatim>\<open>changes[change_type].append(c)\<close>. The matcher calls it with the classifier's result,
  and only when that is not \<^verbatim>\<open>'unchanged'\<close>, which is no key of \<^verbatim>\<open>changes\<close>.
\<close>

fun changes_append :: "change_type \<Rightarrow> change \<Rightarrow> changes \<Rightarrow> changes" where
  "changes_append Added c ch = ch\<lparr>added := added ch @ [c]\<rparr>"
| "changes_append Deleted c ch = ch\<lparr>deleted := deleted ch @ [c]\<rparr>"
| "changes_append Modified c ch = ch\<lparr>modified := modified ch @ [c]\<rparr>"
| "changes_append Moved c ch = ch\<lparr>moved := moved ch @ [c]\<rparr>"
| "changes_append DurationChanged c ch = ch\<lparr>duration_changed := duration_changed ch @ [c]\<rparr>"
| "changes_append Unchanged c ch = ch"

text \<open>The body of the loop over \<^verbatim>\<open>events2_by_uid.items()\<close>.\<close>

definition check_event2 :: "(string \<times> event) list \<Rightarrow> changes \<Rightarrow> string \<times> event \<Rightarrow> changes" where
  "check_event2 events1_by_uid ch item =
     (case item of (key, event2) \<Rightarrow>
        (case map_of events1_by_uid key of
           None \<Rightarrow> changes_append Added (EventChange event2 Added key) ch
         | Some event1 \<Rightarrow>
             (let change_type = classify_event_changes event1 event2
              in if change_type \<noteq> Unchanged then
                   (let change_details = get_detailed_property_changes event1 event2
                    in changes_append change_type
                         (PairChange event1 event2 change_details change_type key) ch)
                 else ch)))"

text \<open>The body of the loop over \<^verbatim>\<open>events1_by_uid.items()\<close>.\<close>

definition check_event1 :: "(string \<times> event) list \<Rightarrow> changes \<Rightarrow> string \<times> event \<Rightarrow> changes" where
  "check_event1 events2_by_uid ch item =
     (case item of (key, event1) \<Rightarrow>
        (case map_of events2_by_uid key of
           None \<Rightarrow> changes_append Deleted (EventChange event1 Deleted key) ch
         | Some event2 \<Rightarrow> ch))"

text \<open>
  \<^verbatim>\<open>detect_event_changes_detailed\<close>. On events of the shape above nothing in its
  \<^verbatim>\<open>try\<close> block raises: \<^verbatim>\<open>event['uid']\<close> is there, \<^verbatim>\<open>events1_by_uid[uid]\<close> is read
  after the membership test, and the classifier catches its own exceptions.
\<close>

definition detect_event_changes_detailed :: "event list \<Rightarrow> event list \<Rightarrow> changes" where
  "detect_event_changes_detailed events1 events2 =
     (let events1_by_uid = by_uid events1;
          events2_by_uid = by_uid events2;
          ch = foldl (check_event2 events1_by_uid) no_changes events2_by_uid
      in foldl (check_event1 events2_by_uid) ch events1_by_uid)"

text \<open>
  The pairs the matcher hands to the classifier: for every uid of \<open>events2_by_uid\<close> that is
  in \<open>events1_by_uid\<close> too, the two events stored under it.
\<close>

definition matched_pairs :: "event list \<Rightarrow> event list \<Rightarrow> (event \<times> event) list" where
  "matched_pairs events1 events2 =
     concat (map (\<lambda>(key, event2). case map_of (by_uid events1) key of
                                     None \<Rightarrow> [] | Some event1 \<Rightarrow> [(event1, event2)])
               (by_uid events2))"

section \<open>Chronological sorter\<close>

text \<open>An entry of the list \<^verbatim>\<open>_sort_changes_chronologically\<close> returns.\<close>

record sorted_change =
  sc_change_type :: change_type
  sort_date :: pyval
  change_data :: change

text \<open>
  \<^verbatim>\<open>changes.items()\<close>: the keys in the order in which the dictionary literal of
  \<^verbatim>\<open>detect_event_changes_detailed\<close> lists them.
\<close>

definition changes_items :: "changes \<Rightarrow> (change_type \<times> change list) list" where
  "changes_items ch = [(Added, added ch), (Deleted, deleted ch), (Modified, modified ch),
     (Moved, moved ch), (DurationChanged, duration_changed ch)]"

text \<open>
  The sort date of one entry. \<^verbatim>\<open>change['event']\<close> and \<^verbatim>\<open>change['event2']\<close> raise
  \<^verbatim>\<open>KeyError\<close> on an entry of the other shape.
\<close>

fun get_sort_date :: "change_type \<Rightarrow> change \<Rightarrow> pyerror + pyval" where
  "get_sort_date Added (EventChange e ct u) =
     Inr (event_get_default e ''dtstart'' (PDatetime datetime_min))"
| "get_sort_date Added (PairChange e1 e2 cs ct u) = Inl KeyError"
| "get_sort_date Deleted (EventChange e ct u) =
     Inr (event_get_default e ''dtstart'' (PDatetime datetime_min))"
| "get_sort_date Deleted (PairChange e1 e2 cs ct u) = Inl KeyError"
| "get_sort_date other (PairChange e1 e2 cs ct u) =
     Inr (event_get_default e2 ''dtstart'' (PDatetime datetime_min))"
| "get_sort_date other (EventChange e ct u) = Inl KeyError"

fun collect_list :: "change_type \<Rightarrow> change list \<Rightarrow> pyerror + sorted_change list" where
  "collect_list change_type [] = Inr []"
| "collect_list change_type (c # cs) =
     (case get_sort_date change_type c of
        Inl exn \<Rightarrow> Inl exn
      | Inr d \<Rightarrow>
          (case collect_list change_type cs of
             Inl exn \<Rightarrow> Inl exn
           | Inr rest \<Rightarrow>
               Inr (\<lparr>sc_change_type = change_type, sort_date = d, change_data = c\<rparr> # rest)))"

fun collect_changes :: "(change_type \<times> change list) list \<Rightarrow> pyerror + sorted_change list" where
  "collect_changes [] = Inr []"
| "collect_changes ((change_type, change_list) # items) =
     (case collect_list change_type change_list of
        Inl exn \<Rightarrow> Inl exn
      | Inr xs \<Rightarrow>
          (case collect_changes items of Inl exn \<Rightarrow> Inl exn | Inr ys \<Rightarrow> Inr (xs @ ys)))"

text \<open>The sort key: \<^verbatim>\<open>x['sort_date'] if x['sort_date'] else datetime.min\<close>.\<close>

definition sort_key_of :: "sorted_change \<Rightarrow> pyval" where
  "sort_key_of x = (if truthy (sort_date x) then sort_date x else PDatetime datetime_min)"

text \<open>
  \<^verbatim>\<open>list.sort(key=...)\<close> on datetime keys. Comparing a naive with an aware datetime by
  \<^verbatim>\<open><\<close> raises \<^verbatim>\<open>TypeError\<close>, and a sort of two or more elements compares across any
  split of its keys, so the sort raises as soon as both kinds are among the keys; a list of
  at most one element is returned without any comparison. Keys that are not datetimes do
  not arise here (a sort date is a \<^verbatim>\<open>dtstart\<close>).

  Python's sort is stable and uses \<^verbatim>\<open><\<close> only. It is modelled by insertion from the left:
  each element goes behind the elements already placed that are not greater than it. When
  \<^verbatim>\<open><\<close> orders the keys consistently, every stable sort returns this list. (The
  comparisons can be inconsistent only when two keys of one tzinfo object lie in opposite
  order by wall clock and by instant and meet a key of another object; the order in which
  Python leaves such keys depends on the internals of its sort and is not modelled.)
\<close>

fun is_naive :: "pyval \<Rightarrow> bool" where
  "is_naive (PDatetime d) = (dt_tzinfo d = None)"
| "is_naive _ = False"

fun is_aware :: "pyval \<Rightarrow> bool" where
  "is_aware (PDatetime d) = (dt_tzinfo d \<noteq> None)"
| "is_aware _ = False"

definition comparable_keys :: "pyval list \<Rightarrow> bool" where
  "comparable_keys ks = (length ks \<le> 1 \<or> list_all is_naive ks \<or> list_all is_aware ks)"

fun key_lt :: "pyval \<Rightarrow> pyval \<Rightarrow> bool" where
  "key_lt (PDatetime a) (PDatetime b) = (dt_lt a b = Inr True)"
| "key_lt _ _ = False"

fun insert_behind :: "('a \<Rightarrow> 'a \<Rightarrow> bool) \<Rightarrow> 'a \<Rightarrow> 'a list \<Rightarrow> 'a list" where
  "insert_behind lt x [] = [x]"
| "insert_behind lt x (y # ys) = (if lt x y then x # y # ys else y # insert_behind lt x ys)"

definition stable_sort :: "('a \<Rightarrow> 'a \<Rightarrow> bool) \<Rightarrow> 'a list \<Rightarrow> 'a list" where
  "stable_sort lt xs = foldl (\<lambda>placed x. insert_behind lt x placed) [] xs"

definition py_sort :: "('a \<Rightarrow> pyval) \<Rightarrow> 'a list \<Rightarrow> pyerror + 'a list" where
  "py_sort key xs =
     (if comparable_keys (map key xs) then Inr (stable_sort (\<lambda>x y. key_lt (key x) (key y)) xs)
      else Inl TypeError)"

definition sort_changes_chronologically :: "changes \<Rightarrow> pyerror + sorted_change list" where
  "sort_changes_chronologically ch =
     (case collect_changes (changes_items ch) of
        Inl exn \<Rightarrow> Inl exn
      | Inr all_changes \<Rightarrow> py_sort sort_key_of all_changes)"

section \<open>Semantic diff\<close>

record statistics =
  st_added :: int
  st_deleted :: int
  st_modified :: int
  st_moved :: int
  st_duration_changed :: int
  st_unchanged :: int

record semantic_diff =
  sd_statistics :: statistics
  sd_changes :: changes
  sd_sorted_changes :: "sorted_change list"

text \<open>
  \<^verbatim>\<open>generate_event_semantic_diff\<close>, from the two parsed event lists on. An exception of
  the sorter is re-raised as \<^verbatim>\<open>ICSAnalysisError\<close>. The file names and the time stamp of
  the result are left out.
\<close>

definition generate_event_semantic_diff :: "event list \<Rightarrow> event list \<Rightarrow> pyerror + semantic_diff" where
  "generate_event_semantic_diff events1 events2 =
     (let ch = detect_event_changes_detailed events1 events2;
          stats = \<lparr>st_added = int (length (added ch)),
                   st_deleted = int (length (deleted ch)),
                   st_modified = int (length (modified ch)),
                   st_moved = int (length (moved ch)),
                   st_duration_changed = int (length (duration_changed ch)),
                   st_unchanged = int (length events1) + int (length events2)
                     - int (length (added ch)) - int (length (deleted ch))
                     - int (length (modified ch)) - int (length (moved ch))
                     - int (length (duration_changed ch))\<rparr>
      in case sort_changes_chronologically ch of
           Inl exn \<Rightarrow> Inl ICSAnalysisError
         | Inr sorted_changes \<Rightarrow>
             Inr \<lparr>sd_statistics = stats, sd_changes = ch, sd_sorted_changes = sorted_changes\<rparr>)"

section \<open>Vocabulary of the properties\<close>

text \<open>
  Python's \<^verbatim>\<open>!=\<close> on two optional datetimes, as the classifier applies it to the
  \<^verbatim>\<open>dtstart\<close> and \<^verbatim>\<open>dtend\<close> it reads with \<^verbatim>\<open>.get\<close>.
\<close>

definition date_ne :: "pydatetime option \<Rightarrow> pydatetime option \<Rightarrow> bool" where
  "date_ne v1 v2 =
     (case (v1, v2) of
        (None, None) \<Rightarrow> False
      | (Some a, Some b) \<Rightarrow> \<not> dt_eq a b
      | _ \<Rightarrow> True)"

text \<open>
  The string by which a text field is compared: \<^verbatim>\<open>str()\<close> of its value, with a missing
  key and the value \<^verbatim>\<open>None\<close> both coerced to the empty string.
\<close>

definition coerce_text :: "pyval option \<Rightarrow> string" where
  "coerce_text v = (case v of None \<Rightarrow> [] | Some PNone \<Rightarrow> [] | Some x \<Rightarrow> py_str x)"

text \<open>A text field that is not present with the value \<^verbatim>\<open>None\<close>, and an event all of whose
  text fields are so.\<close>

definition text_given :: "pyval option \<Rightarrow> bool" where
  "text_given v = (v \<noteq> Some PNone)"

definition texts_given :: "event \<Rightarrow> bool" where
  "texts_given e = (text_given (summary e) \<and> text_given (description e) \<and> text_given (categories e))"

text \<open>\<^verbatim>\<open>str(event.get(prop, ''))\<close> in terms of the field.\<close>

definition get_text :: "pyval option \<Rightarrow> string" where
  "get_text v = (case v of None \<Rightarrow> [] | Some x \<Rightarrow> py_str x)"

text \<open>The event an entry of \<^verbatim>\<open>added\<close> or \<^verbatim>\<open>deleted\<close> reports.\<close>

fun change_event :: "change \<Rightarrow> event list" where
  "change_event (EventChange e ct u) = [e]"
| "change_event (PairChange e1 e2 cs ct u) = []"







subsection \<open>Sample events\<close>

definition midnight :: "nat \<Rightarrow> nat \<Rightarrow> nat \<Rightarrow> pydatetime" where
  "midnight y m d = \<lparr>dt_year = y, dt_month = m, dt_day = d, dt_hour = 0, dt_minute = 0,
     dt_second = 0, dt_microsecond = 0, dt_tzinfo = None\<rparr>"

definition midnight_utc :: "nat \<Rightarrow> nat \<Rightarrow> nat \<Rightarrow> pydatetime" where
  "midnight_utc y m d = \<lparr>dt_year = y, dt_month = m, dt_day = d, dt_hour = 0, dt_minute = 0,
     dt_second = 0, dt_microsecond = 0, dt_tzinfo = Some (0, 0)\<rparr>"

definition holiday :: "string \<Rightarrow> string \<Rightarrow> pydatetime option \<Rightarrow> pydatetime option \<Rightarrow> event" where
  "holiday u s a b = \<lparr>uid = u, summary = Some (PStr s),
     description = Some (PStr ''National Holiday''),
     categories = Some (PStr ''Japanese-Holiday''), dtstart = a, dtend = b\<rparr>"

text \<open>New Year's Day 2024, one day long, with naive dates.\<close>

definition new_year :: event where
  "new_year = holiday ''e1'' ''New Year'' (Some (midnight 2024 1 1)) (Some (midnight 2024 1 2))"

text \<open>The same event one day later.\<close>

definition new_year_moved :: event where
  "new_year_moved = holiday ''e1'' ''New Year'' (Some (midnight 2024 1 2)) (Some (midnight 2024 1 3))"

text \<open>The same event with another title.\<close>

definition new_year_renamed :: event where
  "new_year_renamed = holiday ''e1'' ''New Year Day'' (Some (midnight 2024 1 1)) (Some (midnight 2024 1 2))"

text \<open>
  An all-day start (\<^verbatim>\<open>DTSTART;VALUE=DATE\<close>, which \<^verbatim>\<open>extract_events\<close> turns into a
  naive midnight) with an end given in UTC (\<^verbatim>\<open>DTEND:20240102T000000Z\<close>), and the same event
  starting a day later.
\<close>

definition mixed_event :: event where
  "mixed_event = holiday ''e1'' ''New Year'' (Some (midnight 2024 1 1)) (Some (midnight_utc 2024 1 3))"

definition mixed_event_later :: event where
  "mixed_event_later = holiday ''e1'' ''New Year'' (Some (midnight 2024 1 2)) (Some (midnight_utc 2024 1 3))"

text \<open>New Year's Day without a start date.\<close>

definition new_year_no_start :: event where
  "new_year_no_start = holiday ''e1'' ''New Year'' None (Some (midnight 2024 1 2))"

text \<open>
  A change window as the two sources of \<^verbatim>\<open>compare_with_aws_change_calendar\<close> give it.
  The calendar file has a \<^verbatim>\<open>VEVENT\<close> without \<^verbatim>\<open>SUMMARY\<close> and \<^verbatim>\<open>DESCRIPTION\<close>, for which
  \<^verbatim>\<open>extract_events\<close> stores empty strings; the AWS document has the record
  \<^verbatim>\<open>{"id": "e1", "summary": null, "start": "2024-01-01", "end": "2024-01-02"}\<close>, for which
  the adapter stores \<^verbatim>\<open>None\<close> as summary and the empty string as description.
\<close>

definition local_window :: event where
  "local_window = \<lparr>uid = ''e1'', summary = Some (PStr []), description = Some (PStr []),
     categories = Some (PStr ''AWS-Change-Calendar''),
     dtstart = Some (midnight 2024 1 1), dtend = Some (midnight 2024 1 2)\<rparr>"

definition aws_window :: event where
  "aws_window = \<lparr>uid = ''e1'', summary = Some PNone, description = Some (PStr []),
     categories = Some (PStr ''AWS-Change-Calendar''),
     dtstart = Some (midnight 2024 1 1), dtend = Some (midnight 2024 1 2)\<rparr>"

subsection \<open>What one uid contributes to the matcher's lists\<close>

text \<open>
  The entries the two loops of \<^verbatim>\<open>detect_event_changes_detailed\<close> append for one item of
  the dictionary they run over: to \<^verbatim>\<open>added\<close>, to \<^verbatim>\<open>deleted\<close>, and to the list of one
  pair type.
\<close>

definition added_of :: "(string \<times> event) list \<Rightarrow> string \<times> event \<Rightarrow> change list" where
  "added_of d1 item = (case item of (k, e2) \<Rightarrow>
     (case map_of d1 k of None \<Rightarrow> [EventChange e2 Added k] | Some e1 \<Rightarrow> []))"

definition deleted_of :: "(string \<times> event) list \<Rightarrow> string \<times> event \<Rightarrow> change list" where
  "deleted_of d2 item = (case item of (k, e1) \<Rightarrow>
     (case map_of d2 k of None \<Rightarrow> [EventChange e1 Deleted k] | Some e2 \<Rightarrow> []))"

definition pair_of :: "change_type \<Rightarrow> (string \<times> event) list \<Rightarrow> string \<times> event \<Rightarrow> change list" where
  "pair_of ct d1 item = (case item of (k, e2) \<Rightarrow>
     (case map_of d1 k of None \<Rightarrow> []
      | Some e1 \<Rightarrow> if classify_event_changes e1 e2 = ct
          then [PairChange e1 e2 (get_detailed_property_changes e1 e2) ct k] else []))"

subsection \<open>Keyed events and the events of a change record\<close>

text \<open>The test \<^verbatim>\<open>if event['uid']\<close> of the two dictionary comprehensions.\<close>

definition keyed :: "event \<Rightarrow> bool" where
  "keyed e = (uid e \<noteq> [])"

fun events_of_change :: "change \<Rightarrow> event list" where
  "events_of_change (EventChange e ct u) = [e]"
| "events_of_change (PairChange e1 e2 cs ct u) = [e1, e2]"

definition all_changes_of :: "changes \<Rightarrow> change list" where
  "all_changes_of ch = added ch @ deleted ch @ modified ch @ moved ch @ duration_changed ch"

text \<open>A diff result with \<open>n\<close> more events counted as unchanged.\<close>

definition add_unchanged :: "int \<Rightarrow> semantic_diff \<Rightarrow> semantic_diff" where
  "add_unchanged n r =
     r\<lparr>sd_statistics := (sd_statistics r)\<lparr>st_unchanged := st_unchanged (sd_statistics r) + n\<rparr>\<rparr>"

text \<open>An event without uid, and a second holiday with one.\<close>

definition constitution_day :: event where
  "constitution_day =
     holiday [] ''Constitution Day'' (Some (midnight 2024 5 3)) (Some (midnight 2024 5 4))"

definition coming_of_age_day :: event where
  "coming_of_age_day =
     holiday ''e2'' ''Coming of Age Day'' (Some (midnight 2024 1 8)) (Some (midnight 2024 1 9))"

text \<open>The pair one item of \<open>events2_by_uid\<close> gives: none when its uid is not in
  \<open>events1_by_uid\<close>.\<close>

definition pairs_at :: "(string \<times> event) list \<Rightarrow> string \<times> event \<Rightarrow> (event \<times> event) list" where
  "pairs_at d1 item = (case item of (k, e2) \<Rightarrow>
     (case map_of d1 k of None \<Rightarrow> [] | Some e1 \<Rightarrow> [(e1, e2)]))"

text \<open>A holiday of another uid on the day of Coming of Age Day.\<close>

definition adults_day :: event where
  "adults_day = holiday ''e3'' ''Adults Day'' (Some (midnight 2024 1 8)) (Some (midnight 2024 1 9))"




text \<open>A holiday of a further uid whose dates carry the UTC offset.\<close>

definition utc_day :: event where
  "utc_day = holiday ''e4'' ''UTC Day'' (Some (midnight_utc 2024 1 8)) (Some (midnight_utc 2024 1 9))"

section \<open>Simple event matcher\<close>

text \<open>
  \<^verbatim>\<open>compare_event_properties\<close>: one line of text per property that differs. Here only
  two \<^verbatim>\<open>datetime\<close> values are compared as dates; everything else is compared through
  \<^verbatim>\<open>str()\<close>, so that a missing value reads \<^verbatim>\<open>None\<close>. The arrow between the two values is
  U+2192, three bytes in UTF-8. Nothing in the body raises, so its \<^verbatim>\<open>except\<close> branch is
  not reached.
\<close>

definition upper :: "string \<Rightarrow> string" where
  "upper s = map (\<lambda>c. if 97 \<le> (of_char c :: nat) \<and> (of_char c :: nat) \<le> 122
                        then char_of ((of_char c :: nat) - 32) else c) s"

definition arrow :: string where
  "arrow = [CHR '' '', CHR 0xE2, CHR 0x86, CHR 0x92, CHR '' '']"

definition property_line :: "string \<Rightarrow> pyval \<Rightarrow> pyval \<Rightarrow> string list" where
  "property_line prop value1 value2 =
     (case (value1, value2) of
        (PDatetime d1, PDatetime d2) \<Rightarrow>
          (if py_ne value1 value2
           then [upper prop @ '': '' @ isoformat d1 @ arrow @ isoformat d2] else [])
      | _ \<Rightarrow>
          (if py_str value1 \<noteq> py_str value2
           then [upper prop @ '': '' @ py_str value1 @ arrow @ py_str value2] else []))"

definition compare_event_properties :: "event \<Rightarrow> event \<Rightarrow> string list" where
  "compare_event_properties event1 event2 =
     concat (map (\<lambda>prop. property_line prop (event_get event1 prop) (event_get event2 prop))
       compare_props)"

text \<open>
  The entries of the lists of \<^verbatim>\<open>detect_event_changes\<close>: \<^verbatim>\<open>{'event', 'change_type'}\<close>,
  or \<^verbatim>\<open>{'event1', 'event2', 'property_changes', 'change_type'}\<close> for a modified pair.
\<close>

datatype simple_change =
    SimpleEvent event change_type
  | SimplePair event event "string list" change_type

record simple_changes =
  s_added :: "simple_change list"
  s_deleted :: "simple_change list"
  s_modified :: "simple_change list"
  s_unchanged :: "simple_change list"

text \<open>\<^verbatim>\<open>_get_event_sort_key\<close>: the start of the event of the entry (of \<^verbatim>\<open>event2\<close> for a
  pair), or \<^verbatim>\<open>datetime.min\<close> when it has none.\<close>

fun get_event_sort_key :: "simple_change \<Rightarrow> pyval" where
  "get_event_sort_key (SimpleEvent e ct) =
     (if truthy (event_get e ''dtstart'') then event_get e ''dtstart''
      else PDatetime datetime_min)"
| "get_event_sort_key (SimplePair e1 e2 ps ct) =
     (if truthy (event_get e2 ''dtstart'') then event_get e2 ''dtstart''
      else PDatetime datetime_min)"

text \<open>
  The key under which an event without uid is filed:
  \<^verbatim>\<open>event['dtstart'].isoformat() if event['dtstart'] else ''\<close>.
\<close>

definition start_key :: "event \<Rightarrow> string" where
  "start_key e = (case event_get e ''dtstart'' of PDatetime d \<Rightarrow> isoformat d | _ \<Rightarrow> [])"

definition dtstart_step :: "(string \<times> event) list \<Rightarrow> event \<Rightarrow> (string \<times> event) list" where
  "dtstart_step d event = dict_set d (start_key event) event"

definition by_dtstart :: "event list \<Rightarrow> (string \<times> event) list" where
  "by_dtstart events = foldl dtstart_step [] events"

text \<open>
  The sets of keys. A set is held as the list of its elements without repetition; the
  keys of a dictionary are such a list. \<^verbatim>\<open>a - b\<close> and \<^verbatim>\<open>a & b\<close>:
\<close>

definition set_difference :: "string list \<Rightarrow> string list \<Rightarrow> string list" where
  "set_difference a b = filter (\<lambda>k. k \<notin> set b) a"

definition set_intersection :: "string list \<Rightarrow> string list \<Rightarrow> string list" where
  "set_intersection a b = filter (\<lambda>k. k \<in> set b) a"

text \<open>\<^verbatim>\<open>d[k]\<close> for each key of a list in turn: \<^verbatim>\<open>KeyError\<close> when a key is not in \<open>d\<close>.\<close>

fun events_at :: "(string \<times> event) list \<Rightarrow> string list \<Rightarrow> pyerror + event list" where
  "events_at d [] = Inr []"
| "events_at d (k # ks) =
     (case map_of d k of
        None \<Rightarrow> Inl KeyError
      | Some e \<Rightarrow> (case events_at d ks of Inl exn \<Rightarrow> Inl exn | Inr es \<Rightarrow> Inr (e # es)))"

text \<open>The entry the loop over the common uids appends for one uid, to \<^verbatim>\<open>modified\<close> and to
  \<^verbatim>\<open>unchanged\<close>.\<close>

definition modified_of :: "event \<times> event \<Rightarrow> simple_change list" where
  "modified_of pair = (case pair of (event1, event2) \<Rightarrow>
     (let property_changes = compare_event_properties event1 event2
      in if property_changes \<noteq> [] then [SimplePair event1 event2 property_changes Modified]
         else []))"

definition unchanged_of :: "event \<times> event \<Rightarrow> simple_change list" where
  "unchanged_of pair = (case pair of (event1, event2) \<Rightarrow>
     (let property_changes = compare_event_properties event1 event2
      in if property_changes \<noteq> [] then [] else [SimpleEvent event1 Unchanged]))"

text \<open>
  The body of \<^verbatim>\<open>detect_event_changes\<close> up to the sort. Its five loops run over sets of
  strings. Python fixes no order for the elements of a set (the order follows the hashes of
  the strings, which change from one run of the interpreter to the next), so the order is a
  parameter: \<open>visit ks\<close> is the order in which a loop visits the set with the elements
  \<open>ks\<close>.
\<close>

definition collect_simple_changes :: "(string list \<Rightarrow> string list) \<Rightarrow> event list \<Rightarrow> event list
    \<Rightarrow> pyerror + simple_changes" where
  "collect_simple_changes visit events1 events2 =
     (let events1_dict = by_uid events1;
          events2_dict = by_uid events2;
          events1_no_uid = filter (\<lambda>event. \<not> keyed event) events1;
          events2_no_uid = filter (\<lambda>event. \<not> keyed event) events2;
          uid1_set = map fst events1_dict;
          uid2_set = map fst events2_dict;
          added_uids = set_difference uid2_set uid1_set;
          deleted_uids = set_difference uid1_set uid2_set;
          common_uids = set_intersection uid1_set uid2_set;
          dtstart1_dict = by_dtstart events1_no_uid;
          dtstart2_dict = by_dtstart events2_no_uid;
          dtstart1_set = map fst dtstart1_dict;
          dtstart2_set = map fst dtstart2_dict
      in case events_at events2_dict (visit added_uids) of
           Inl exn \<Rightarrow> Inl exn
         | Inr added1 \<Rightarrow>
        (case events_at events1_dict (visit deleted_uids) of
           Inl exn \<Rightarrow> Inl exn
         | Inr deleted1 \<Rightarrow>
        (case events_at events1_dict (visit common_uids) of
           Inl exn \<Rightarrow> Inl exn
         | Inr common1 \<Rightarrow>
        (case events_at events2_dict (visit common_uids) of
           Inl exn \<Rightarrow> Inl exn
         | Inr common2 \<Rightarrow>
        (case events_at dtstart2_dict
                (filter (\<lambda>dtstart. dtstart \<noteq> []) (visit (set_difference dtstart2_set dtstart1_set))) of
           Inl exn \<Rightarrow> Inl exn
         | Inr added2 \<Rightarrow>
        (case events_at dtstart1_dict
                (filter (\<lambda>dtstart. dtstart \<noteq> []) (visit (set_difference dtstart1_set dtstart2_set))) of
           Inl exn \<Rightarrow> Inl exn
         | Inr deleted2 \<Rightarrow>
             Inr \<lparr>s_added = map (\<lambda>event. SimpleEvent event Added) (added1 @ added2),
                  s_deleted = map (\<lambda>event. SimpleEvent event Deleted) (deleted1 @ deleted2),
                  s_modified = concat (map modified_of (zip common1 common2)),
                  s_unchanged = concat (map unchanged_of (zip common1 common2))\<rparr>))))))"

text \<open>
  \<^verbatim>\<open>detect_event_changes\<close>. The lists \<^verbatim>\<open>added\<close>, \<^verbatim>\<open>deleted\<close> and \<^verbatim>\<open>modified\<close> are
  sorted by start at the end, which raises when naive and aware starts meet; the
  \<^verbatim>\<open>except\<close> branch turns every exception into \<^verbatim>\<open>ICSAnalysisError\<close>.
\<close>

definition detect_event_changes :: "(string list \<Rightarrow> string list) \<Rightarrow> event list \<Rightarrow> event list
    \<Rightarrow> pyerror + simple_changes" where
  "detect_event_changes visit events1 events2 =
     (case collect_simple_changes visit events1 events2 of
        Inl exn \<Rightarrow> Inl ICSAnalysisError
      | Inr collected \<Rightarrow>
     (case py_sort get_event_sort_key (s_added collected) of
        Inl exn \<Rightarrow> Inl ICSAnalysisError
      | Inr added_sorted \<Rightarrow>
     (case py_sort get_event_sort_key (s_deleted collected) of
        Inl exn \<Rightarrow> Inl ICSAnalysisError
      | Inr deleted_sorted \<Rightarrow>
     (case py_sort get_event_sort_key (s_modified collected) of
        Inl exn \<Rightarrow> Inl ICSAnalysisError
      | Inr modified_sorted \<Rightarrow>
          Inr \<lparr>s_added = added_sorted, s_deleted = deleted_sorted,
               s_modified = modified_sorted, s_unchanged = s_unchanged collected\<rparr>))))"


definition in_order :: "string list \<Rightarrow> string list" where
  "in_order ks = ks"

definition backwards :: "string list \<Rightarrow> string list" where
  "backwards ks = rev ks"

text \<open>An event without uid on Constitution Day under another title, and one without start.\<close>

definition greenery_day :: event where
  "greenery_day =
     holiday [] ''Greenery Day'' (Some (midnight 2024 5 3)) (Some (midnight 2024 5 4))"

definition undated_day :: event where
  "undated_day = holiday [] ''Undated Day'' None None"

definition childrens_day :: event where
  "childrens_day =
     holiday [] ''Childrens Day'' (Some (midnight 2024 5 5)) (Some (midnight 2024 5 6))"

text \<open>A second event without uid on the day of Childrens Day.\<close>

definition boys_festival :: event where
  "boys_festival =
     holiday [] ''Boys Festival'' (Some (midnight 2024 5 5)) (Some (midnight 2024 5 6))"

section \<open>Canonicalization of AWS Change Calendar documents\<close>

text \<open>
  \<^verbatim>\<open>normalize_aws_calendar_to_ics\<close> decodes the text of a Change Calendar document with
  \<^verbatim>\<open>json.loads\<close> and reads the decoded value with \<^verbatim>\<open>.get\<close>, truth tests and
  \<^verbatim>\<open>for\<close> loops. A decoded value is \<^verbatim>\<open>None\<close>, a bool, a number, a string, a list or a
  dictionary; a dictionary is held as the list of its items, each key once. Numbers are
  held as integers: the adapter only tests them for truth.
\<close>

datatype json = JNull | JBool bool | JNum int | JStr string | JArr "json list"
  | JObj "(string \<times> json) list"

text \<open>\<^verbatim>\<open>if value\<close> and \<^verbatim>\<open>not value\<close>.\<close>

fun json_truthy :: "json \<Rightarrow> bool" where
  "json_truthy JNull = False"
| "json_truthy (JBool b) = b"
| "json_truthy (JNum n) = (n \<noteq> 0)"
| "json_truthy (JStr s) = (s \<noteq> [])"
| "json_truthy (JArr xs) = (xs \<noteq> [])"
| "json_truthy (JObj fs) = (fs \<noteq> [])"

text \<open>\<^verbatim>\<open>value.get(key, default)\<close>: only a dictionary has the method.\<close>

fun json_get :: "json \<Rightarrow> string \<Rightarrow> json \<Rightarrow> pyerror + json" where
  "json_get (JObj fs) k dflt = Inr (case map_of fs k of None \<Rightarrow> dflt | Some v \<Rightarrow> v)"
| "json_get JNull k dflt = Inl AttributeError"
| "json_get (JBool b) k dflt = Inl AttributeError"
| "json_get (JNum n) k dflt = Inl AttributeError"
| "json_get (JStr s) k dflt = Inl AttributeError"
| "json_get (JArr xs) k dflt = Inl AttributeError"

text \<open>
  The values a \<^verbatim>\<open>for\<close> loop visits: the elements of a list, the characters of a string,
  the keys of a dictionary; the other values are not iterable.
\<close>

fun json_iter :: "json \<Rightarrow> pyerror + json list" where
  "json_iter (JArr xs) = Inr xs"
| "json_iter (JStr s) = Inr (map (\<lambda>c. JStr [c]) s)"
| "json_iter (JObj fs) = Inr (map (\<lambda>item. JStr (fst item)) fs)"
| "json_iter JNull = Inl TypeError"
| "json_iter (JBool b) = Inl TypeError"
| "json_iter (JNum n) = Inl TypeError"

text \<open>
  The library functions the adapter calls are parameters of the model:
  \<^verbatim>\<open>json.loads\<close> (\<open>None\<close> when it raises), \<^verbatim>\<open>datetime.strptime\<close> on a string and a
  format (\<open>None\<close> when it raises \<^verbatim>\<open>ValueError\<close>), \<^verbatim>\<open>dateutil.parser.parse\<close> (the package
  may be missing, the parse may raise, or it returns a datetime) and the text an f-string
  gives for a decoded value.
\<close>

datatype dateutil_outcome = DateutilMissing | DateutilError | DateutilResult pydatetime

record pylib =
  json_loads :: "string \<Rightarrow> json option"
  strptime :: "string \<Rightarrow> string \<Rightarrow> pydatetime option"
  dateutil_parse :: "string \<Rightarrow> dateutil_outcome"
  py_format :: "json \<Rightarrow> string"

subsection \<open>Date strings\<close>

definition aws_formats :: "string list" where
  "aws_formats = [''%Y-%m-%dT%H:%M:%SZ'', ''%Y-%m-%dT%H:%M:%S.%fZ'', ''%Y-%m-%d'',
     ''%Y-%m-%dT%H:%M:%S'', ''%Y/%m/%d %H:%M:%S'']"

text \<open>The loop over the formats: the first one that \<^verbatim>\<open>strptime\<close> accepts decides.\<close>

fun try_formats :: "pylib \<Rightarrow> string \<Rightarrow> string list \<Rightarrow> pydatetime option" where
  "try_formats lib s [] = None"
| "try_formats lib s (fmt # fmts) =
     (case strptime lib s fmt of
        Some d \<Rightarrow> Some d
      | None \<Rightarrow> try_formats lib s fmts)"

text \<open>
  The body of \<^verbatim>\<open>_parse_aws_datetime\<close> inside its outer \<^verbatim>\<open>try\<close>. A false value returns
  \<^verbatim>\<open>None\<close> at once. \<^verbatim>\<open>strptime\<close> raises \<^verbatim>\<open>TypeError\<close> on a value that is not a string,
  which the inner \<^verbatim>\<open>except ValueError\<close> does not catch. Around the dateutil call only
  \<^verbatim>\<open>ImportError\<close> is caught.
\<close>

definition parse_aws_datetime_body :: "pylib \<Rightarrow> json \<Rightarrow> pyerror + pydatetime option" where
  "parse_aws_datetime_body lib aws_datetime_str =
     (if \<not> json_truthy aws_datetime_str then Inr None
      else case aws_datetime_str of
             JStr s \<Rightarrow>
               (case try_formats lib s aws_formats of
                  Some d \<Rightarrow> Inr (Some d)
                | None \<Rightarrow>
                    (case dateutil_parse lib s of
                       DateutilResult d \<Rightarrow> Inr (Some d)
                     | DateutilMissing \<Rightarrow> Inr None
                     | DateutilError \<Rightarrow> Inl ValueError))
           | _ \<Rightarrow> Inl TypeError)"

text \<open>\<^verbatim>\<open>_parse_aws_datetime\<close>: the outer \<^verbatim>\<open>except Exception\<close> returns \<^verbatim>\<open>None\<close>.\<close>

definition parse_aws_datetime :: "pylib \<Rightarrow> json \<Rightarrow> pydatetime option" where
  "parse_aws_datetime lib aws_datetime_str =
     (case parse_aws_datetime_body lib aws_datetime_str of
        Inl exn \<Rightarrow> None
      | Inr result \<Rightarrow> result)"

subsection \<open>The adapter\<close>

text \<open>
  A normalized event. \<^verbatim>\<open>uid\<close>, \<^verbatim>\<open>summary\<close> and \<^verbatim>\<open>description\<close> are whatever the document
  holds under \<^verbatim>\<open>id\<close>, \<^verbatim>\<open>summary\<close> and \<^verbatim>\<open>description\<close>, so they are decoded values.
\<close>

record canonical_event =
  c_uid :: json
  c_summary :: json
  c_dtstart :: "pydatetime option"
  c_dtend :: "pydatetime option"
  c_description :: json
  c_categories :: string

text \<open>
  One round of the loop over \<^verbatim>\<open>events\<close>. The default of \<^verbatim>\<open>event.get('id', ...)\<close> is an
  argument, so \<^verbatim>\<open>uuid.uuid4()\<close> is called in every round; \<open>draw\<close> is the text of the uuid
  it returns.
\<close>

definition normalize_event :: "pylib \<Rightarrow> string \<Rightarrow> json \<Rightarrow> pyerror + canonical_event" where
  "normalize_event lib draw event =
     (case json_get event ''id'' (JStr (''aws-change-calendar-'' @ draw)) of
        Inl exn \<Rightarrow> Inl exn
      | Inr uid_value \<Rightarrow>
     (case json_get event ''summary'' (JStr ''AWS Change Calendar Event'') of
        Inl exn \<Rightarrow> Inl exn
      | Inr summary_value \<Rightarrow>
     (case json_get event ''start'' JNull of
        Inl exn \<Rightarrow> Inl exn
      | Inr start_value \<Rightarrow>
     (case json_get event ''end'' JNull of
        Inl exn \<Rightarrow> Inl exn
      | Inr end_value \<Rightarrow>
     (case json_get event ''description'' (JStr []) of
        Inl exn \<Rightarrow> Inl exn
      | Inr description_value \<Rightarrow>
          Inr \<lparr>c_uid = uid_value,
               c_summary = summary_value,
               c_dtstart = parse_aws_datetime lib start_value,
               c_dtend = parse_aws_datetime lib end_value,
               c_description = description_value,
               c_categories = ''AWS-Change-Calendar''\<rparr>)))))"

text \<open>
  The loop over \<^verbatim>\<open>events\<close>. \<open>uuid4 n\<close> is the text of the uuid that the call number \<open>n\<close>
  of \<^verbatim>\<open>uuid.uuid4()\<close> returns in this run, counted from 0.
\<close>

fun events_loop :: "pylib \<Rightarrow> (nat \<Rightarrow> string) \<Rightarrow> nat \<Rightarrow> json list \<Rightarrow> pyerror + canonical_event list" where
  "events_loop lib uuid4 n [] = Inr []"
| "events_loop lib uuid4 n (event # rest) =
     (case normalize_event lib (uuid4 n) event of
        Inl exn \<Rightarrow> Inl exn
      | Inr normalized_event \<Rightarrow>
          (case events_loop lib uuid4 (Suc n) rest of
             Inl exn \<Rightarrow> Inl exn
           | Inr normalized_events \<Rightarrow> Inr (normalized_event # normalized_events)))"

text \<open>
  One round of the loop over the periods of the older layout: \<open>None\<close> when the period has
  no start or no end and is passed over, in which case \<^verbatim>\<open>uuid.uuid4()\<close> is not called.
\<close>

definition normalize_period :: "pylib \<Rightarrow> string \<Rightarrow> json \<Rightarrow> json \<Rightarrow> pyerror + canonical_event option" where
  "normalize_period lib draw calendar_data period =
     (case json_get period ''start'' JNull of
        Inl exn \<Rightarrow> Inl exn
      | Inr start_time \<Rightarrow>
     (case json_get period ''end'' JNull of
        Inl exn \<Rightarrow> Inl exn
      | Inr end_time \<Rightarrow>
          if json_truthy start_time \<and> json_truthy end_time then
            (case json_get calendar_data ''name'' (JStr ''Unknown'') of
               Inl exn \<Rightarrow> Inl exn
             | Inr name_value \<Rightarrow>
            (case json_get period ''description'' (JStr []) of
               Inl exn \<Rightarrow> Inl exn
             | Inr description_value \<Rightarrow>
                 Inr (Some \<lparr>c_uid = JStr (''aws-change-calendar-'' @ draw),
                   c_summary = JStr (''AWS Change Calendar: '' @ py_format lib name_value),
                   c_dtstart = parse_aws_datetime lib start_time,
                   c_dtend = parse_aws_datetime lib end_time,
                   c_description =
                     JStr (''AWS Change Calendar period: '' @ py_format lib description_value),
                   c_categories = ''AWS-Change-Calendar''\<rparr>)))
          else Inr None))"

fun periods_loop :: "pylib \<Rightarrow> (nat \<Rightarrow> string) \<Rightarrow> nat \<Rightarrow> json \<Rightarrow> json list
    \<Rightarrow> pyerror + canonical_event list" where
  "periods_loop lib uuid4 n calendar_data [] = Inr []"
| "periods_loop lib uuid4 n calendar_data (period # rest) =
     (case normalize_period lib (uuid4 n) calendar_data period of
        Inl exn \<Rightarrow> Inl exn
      | Inr None \<Rightarrow> periods_loop lib uuid4 n calendar_data rest
      | Inr (Some normalized_event) \<Rightarrow>
          (case periods_loop lib uuid4 (Suc n) calendar_data rest of
             Inl exn \<Rightarrow> Inl exn
           | Inr normalized_events \<Rightarrow> Inr (normalized_event # normalized_events)))"

text \<open>The body of \<^verbatim>\<open>normalize_aws_calendar_to_ics\<close> inside its \<^verbatim>\<open>try\<close>.\<close>

definition normalize_body :: "pylib \<Rightarrow> (nat \<Rightarrow> string) \<Rightarrow> string \<Rightarrow> pyerror + canonical_event list" where
  "normalize_body lib uuid4 aws_calendar_data =
     (case json_loads lib aws_calendar_data of
        None \<Rightarrow> Inl ValueError
      | Some calendar_data \<Rightarrow>
     (case json_get calendar_data ''events'' (JArr []) of
        Inl exn \<Rightarrow> Inl exn
      | Inr events \<Rightarrow>
          if \<not> json_truthy events then
            (case json_get calendar_data ''schedule'' (JObj []) of
               Inl exn \<Rightarrow> Inl exn
             | Inr schedule \<Rightarrow>
                 if json_truthy schedule then
                   (case json_get schedule ''periods'' (JArr []) of
                      Inl exn \<Rightarrow> Inl exn
                    | Inr periods \<Rightarrow>
                        (case json_iter periods of
                           Inl exn \<Rightarrow> Inl exn
                         | Inr period_list \<Rightarrow>
                             periods_loop lib uuid4 0 calendar_data period_list))
                 else Inr [])
          else
            (case json_iter events of
               Inl exn \<Rightarrow> Inl exn
             | Inr event_list \<Rightarrow> events_loop lib uuid4 0 event_list)))"

text \<open>
  \<^verbatim>\<open>normalize_aws_calendar_to_ics\<close>: \<^verbatim>\<open>json.JSONDecodeError\<close> and every other exception
  of the body are re-raised as \<^verbatim>\<open>ICSAnalysisError\<close>.
\<close>

definition normalize_aws_calendar_to_ics :: "pylib \<Rightarrow> (nat \<Rightarrow> string) \<Rightarrow> string
    \<Rightarrow> pyerror + canonical_event list" where
  "normalize_aws_calendar_to_ics lib uuid4 aws_calendar_data =
     (case normalize_body lib uuid4 aws_calendar_data of
        Inl exn \<Rightarrow> Inl ICSAnalysisError
      | Inr normalized_events \<Rightarrow> Inr normalized_events)"
subsection \<open>Vocabulary of the adapter's properties\<close>

text \<open>A record of the document is a dictionary; \<open>field_of\<close> reads it as \<^verbatim>\<open>.get(key)\<close> does.\<close>

definition is_object :: "json \<Rightarrow> bool" where
  "is_object v = (case v of JObj fs \<Rightarrow> True | _ \<Rightarrow> False)"

definition field_of :: "json \<Rightarrow> string \<Rightarrow> json" where
  "field_of v k = (case v of JObj fs \<Rightarrow> (case map_of fs k of None \<Rightarrow> JNull | Some x \<Rightarrow> x) | _ \<Rightarrow> JNull)"

definition lacks_id :: "json \<Rightarrow> bool" where
  "lacks_id v = (case v of JObj fs \<Rightarrow> map_of fs ''id'' = None | _ \<Rightarrow> False)"

text \<open>
  A date value that no known format parses: a string that \<^verbatim>\<open>strptime\<close> rejects under each
  of the five formats and for which dateutil gives no datetime; a value that is not a string
  counts as unparsable too.
\<close>

definition unparsable :: "pylib \<Rightarrow> json \<Rightarrow> bool" where
  "unparsable lib v =
     (case v of
        JStr s \<Rightarrow>
          list_all (\<lambda>fmt. strptime lib s fmt = None) aws_formats
          \<and> (case dateutil_parse lib s of DateutilResult d \<Rightarrow> False | _ \<Rightarrow> True)
      | _ \<Rightarrow> True)"

text \<open>The failure policy for one record and the event made from it.\<close>

definition dates_policy :: "pylib \<Rightarrow> json \<Rightarrow> canonical_event \<Rightarrow> bool" where
  "dates_policy lib r ev =
     ((unparsable lib (field_of r ''start'') \<longrightarrow> c_dtstart ev = None)
      \<and> (unparsable lib (field_of r ''end'') \<longrightarrow> c_dtend ev = None))"

text \<open>The periods of the older layout that the adapter converts.\<close>

definition has_times :: "json \<Rightarrow> bool" where
  "has_times period =
     (json_truthy (field_of period ''start'') \<and> json_truthy (field_of period ''end''))"

text \<open>The documents of the two layouts: a list of event records, or a schedule of periods.\<close>

definition events_layout :: "pylib \<Rightarrow> string \<Rightarrow> json list \<Rightarrow> bool" where
  "events_layout lib document records =
     (case json_loads lib document of
        Some (JObj doc) \<Rightarrow>
          map_of doc ''events'' = Some (JArr records) \<and> records \<noteq> [] \<and> list_all is_object records
      | _ \<Rightarrow> False)"

definition periods_layout :: "pylib \<Rightarrow> string \<Rightarrow> json list \<Rightarrow> bool" where
  "periods_layout lib document periods =
     (case json_loads lib document of
        Some (JObj doc) \<Rightarrow>
          \<not> json_truthy (field_of (JObj doc) ''events'')
          \<and> (case map_of doc ''schedule'' of
                Some (JObj schedule) \<Rightarrow>
                  map_of schedule ''periods'' = Some (JArr periods) \<and> list_all is_object periods
              | _ \<Rightarrow> False)
      | _ \<Rightarrow> False)"

subsection \<open>Sample documents\<close>

text \<open>
  A document of the events layout whose one record has no \<^verbatim>\<open>id\<close>, a start in the date-only
  format and an end that is no date, and a document of the older layout with one such
  period. The sample library decodes the sample texts, accepts \<^verbatim>\<open>2024-05-03\<close> under
  \<^verbatim>\<open>%Y-%m-%d\<close> only, and formats a string as itself.
\<close>

definition quoted :: "string \<Rightarrow> string" where
  "quoted s = CHR 0x22 # s @ [CHR 0x22]"

definition sample_record :: json where
  "sample_record = JObj [(''start'', JStr ''2024-05-03''), (''end'', JStr ''someday'')]"

definition sample_document :: string where
  "sample_document = ''{'' @ quoted ''events'' @ '': [{'' @ quoted ''start'' @ '': ''
     @ quoted ''2024-05-03'' @ '', '' @ quoted ''end'' @ '': '' @ quoted ''someday'' @ ''}]}''"

definition sample_calendar :: json where
  "sample_calendar = JObj [(''events'', JArr [sample_record])]"

definition legacy_document :: string where
  "legacy_document = ''{'' @ quoted ''schedule'' @ '': {'' @ quoted ''periods'' @ '': [{''
     @ quoted ''start'' @ '': '' @ quoted ''2024-05-03'' @ '', '' @ quoted ''end'' @ '': ''
     @ quoted ''someday'' @ ''}]}}''"

definition legacy_calendar :: json where
  "legacy_calendar = JObj [(''schedule'', JObj [(''periods'', JArr [sample_record])])]"

text \<open>A document of the older layout whose one period has the empty string as its start.\<close>

definition blank_period :: json where
  "blank_period = JObj [(''start'', JStr []), (''end'', JStr ''2024-05-03'')]"

definition blank_document :: string where
  "blank_document = ''{'' @ quoted ''schedule'' @ '': {'' @ quoted ''periods'' @ '': [{''
     @ quoted ''start'' @ '': '' @ quoted [] @ '', '' @ quoted ''end'' @ '': ''
     @ quoted ''2024-05-03'' @ ''}]}}''"

definition blank_calendar :: json where
  "blank_calendar = JObj [(''schedule'', JObj [(''periods'', JArr [blank_period])])]"

definition sample_lib :: pylib where
  "sample_lib =
     \<lparr>json_loads = (\<lambda>document. if document = sample_document then Some sample_calendar
                       else if document = legacy_document then Some legacy_calendar
                       else if document = blank_document then Some blank_calendar else None),
      strptime = (\<lambda>s fmt. if s = ''2024-05-03'' \<and> fmt = ''%Y-%m-%d''
                       then Some (midnight 2024 5 3) else None),
      dateutil_parse = (\<lambda>s. if s = ''2024-05-03'' then DateutilResult (midnight 2024 5 3)
                       else DateutilError),
      py_format = (\<lambda>v. case v of JStr s \<Rightarrow> s | _ \<Rightarrow> [])\<rparr>"

text \<open>The uuids of two runs.\<close>

definition first_run :: "nat \<Rightarrow> string" where
  "first_run n = ''6f1c2c1e-8a46-4c7b-9d57-0c1f7a2b3d4e''"

definition second_run :: "nat \<Rightarrow> string" where
  "second_run n = ''b2a7d9f0-3e15-4d68-a1c4-5e6f7a8b9c0d''"

section \<open>Evaluation rules\<close>

lemmas datetime_eval = midnight_def midnight_utc_def dt_eq_def dt_fields_def dt_sub_def wall_us_def
  dt_utcoffset_def dt_lt_def
  toordinal_def days_before_year_def days_before_month_def days_in_months_def is_leap_def
  timestamp_def datetime_min_def

lemmas format_eval = isoformat_def dt_str_def dt_format_def pad2_def pad4_def pad6_def digit_def
  format_offset_def

lemmas sample_events = holiday_def new_year_def new_year_moved_def new_year_renamed_def
  mixed_event_def mixed_event_later_def new_year_no_start_def

section \<open>Reading the fields of an event\<close>

lemma event_get_dtstart:
  "event_get e ''dtstart'' = (case dtstart e of None \<Rightarrow> PNone | Some d \<Rightarrow> PDatetime d)"
  by (simp add: event_get_def event_item_def)

lemma event_get_dtend:
  "event_get e ''dtend'' = (case dtend e of None \<Rightarrow> PNone | Some d \<Rightarrow> PDatetime d)"
  by (simp add: event_get_def event_item_def)

lemma event_get_summary:
  "event_get e ''summary'' = (case summary e of None \<Rightarrow> PNone | Some v \<Rightarrow> v)"
  by (simp add: event_get_def event_item_def)

lemma event_get_description:
  "event_get e ''description'' = (case description e of None \<Rightarrow> PNone | Some v \<Rightarrow> v)"
  by (simp add: event_get_def event_item_def)

lemma event_get_categories:
  "event_get e ''categories'' = (case categories e of None \<Rightarrow> PNone | Some v \<Rightarrow> v)"
  by (simp add: event_get_def event_item_def)

lemma event_get_default_summary:
  "py_str (event_get_default e ''summary'' (PStr [])) = get_text (summary e)"
  by (simp add: event_get_default_def event_item_def get_text_def split: option.splits)

lemma event_get_default_description:
  "py_str (event_get_default e ''description'' (PStr [])) = get_text (description e)"
  by (simp add: event_get_default_def event_item_def get_text_def split: option.splits)

lemma event_get_default_categories:
  "py_str (event_get_default e ''categories'' (PStr [])) = get_text (categories e)"
  by (simp add: event_get_default_def event_item_def get_text_def split: option.splits)

lemma coerce_text_given: "text_given v \<Longrightarrow> coerce_text v = get_text v"
  by (cases v) (auto simp: text_given_def coerce_text_def get_text_def split: pyval.splits)

lemma py_ne_dates:
  "py_ne (case v1 of None \<Rightarrow> PNone | Some d \<Rightarrow> PDatetime d)
         (case v2 of None \<Rightarrow> PNone | Some d \<Rightarrow> PDatetime d) = date_ne v1 v2"
  by (simp add: date_ne_def split: option.splits)

lemma text_changed:
  "list_ex (\<lambda>prop. py_str (event_get_default event1 prop (PStr []))
                    \<noteq> py_str (event_get_default event2 prop (PStr []))) properties_to_check
   = (get_text (summary event1) \<noteq> get_text (summary event2)
      \<or> get_text (description event1) \<noteq> get_text (description event2)
      \<or> get_text (categories event1) \<noteq> get_text (categories event2))"
  by (simp add: properties_to_check_def event_get_default_summary event_get_default_description
      event_get_default_categories)

section \<open>The classifier\<close>

lemma classify_cases:
  "classify_event_changes before after =
     (if date_ne (dtstart before) (dtstart after) \<or> date_ne (dtend before) (dtend after) then
        (case (dtstart before, dtend before, dtstart after, dtend after) of
           (Some s1, Some e1, Some s2, Some e2) \<Rightarrow>
             (case (dt_sub e1 s1, dt_sub e2 s2) of
                (Inr duration_before, Inr duration_after) \<Rightarrow>
                  if duration_before \<noteq> duration_after then DurationChanged else Moved
              | _ \<Rightarrow> Modified)
         | _ \<Rightarrow> Moved)
      else if get_text (summary before) \<noteq> get_text (summary after)
              \<or> get_text (description before) \<noteq> get_text (description after)
              \<or> get_text (categories before) \<noteq> get_text (categories after)
      then Modified else Unchanged)"
  unfolding classify_event_changes_def Let_def text_changed event_get_dtstart event_get_dtend
    py_ne_dates
  by (simp split: option.splits sum.splits)

lemma texts_given_coerce:
  assumes "texts_given before" and "texts_given after"
  shows "coerce_text (summary before) = get_text (summary before)"
    and "coerce_text (description before) = get_text (description before)"
    and "coerce_text (categories before) = get_text (categories before)"
    and "coerce_text (summary after) = get_text (summary after)"
    and "coerce_text (description after) = get_text (description after)"
    and "coerce_text (categories after) = get_text (categories after)"
  using assms by (simp_all add: texts_given_def coerce_text_given)

text \<open>
  Claim C2, as the code has it. When the start or the end differs and all four dates are
  there, the classifier answers \<open>DurationChanged\<close> or \<open>Moved\<close> by comparing the two durations
  only if both subtractions succeed; if one of them raises (a naive and an aware datetime
  in one event), the \<^verbatim>\<open>except\<close> branch answers \<open>Modified\<close>. If one of the four dates is
  missing the answer is \<open>Moved\<close>. If start and end are both equal and no text field of the
  two events is present with the value \<^verbatim>\<open>None\<close>, the answer is \<open>Modified\<close> exactly when
  summary, description or categories differ as strings, a missing one read as the empty
  string, and \<open>Unchanged\<close> otherwise. Nothing is said here about equal dates and a text
  field that is present with the value \<^verbatim>\<open>None\<close>.
\<close>

theorem classify_decision_order:
  "(date_ne (dtstart before) (dtstart after) \<or> date_ne (dtend before) (dtend after) \<longrightarrow>
      classify_event_changes before after =
        (case (dtstart before, dtend before, dtstart after, dtend after) of
           (Some s1, Some e1, Some s2, Some e2) \<Rightarrow>
             (case (dt_sub e1 s1, dt_sub e2 s2) of
                (Inr duration_before, Inr duration_after) \<Rightarrow>
                  if duration_before \<noteq> duration_after then DurationChanged else Moved
              | _ \<Rightarrow> Modified)
         | _ \<Rightarrow> Moved))
   \<and> (\<not> date_ne (dtstart before) (dtstart after) \<and> \<not> date_ne (dtend before) (dtend after)
        \<and> texts_given before \<and> texts_given after \<longrightarrow>
      classify_event_changes before after =
        (if coerce_text (summary before) \<noteq> coerce_text (summary after)
            \<or> coerce_text (description before) \<noteq> coerce_text (description after)
            \<or> coerce_text (categories before) \<noteq> coerce_text (categories after)
         then Modified else Unchanged))"
proof (intro conjI impI)
  assume "date_ne (dtstart before) (dtstart after) \<or> date_ne (dtend before) (dtend after)"
  then show "classify_event_changes before after =
        (case (dtstart before, dtend before, dtstart after, dtend after) of
           (Some s1, Some e1, Some s2, Some e2) \<Rightarrow>
             (case (dt_sub e1 s1, dt_sub e2 s2) of
                (Inr duration_before, Inr duration_after) \<Rightarrow>
                  if duration_before \<noteq> duration_after then DurationChanged else Moved
              | _ \<Rightarrow> Modified)
         | _ \<Rightarrow> Moved)"
    by (simp only: classify_cases if_True)
next
  assume a: "\<not> date_ne (dtstart before) (dtstart after) \<and> \<not> date_ne (dtend before) (dtend after)
        \<and> texts_given before \<and> texts_given after"
  then have d: "\<not> (date_ne (dtstart before) (dtstart after) \<or> date_ne (dtend before) (dtend after))"
    and g: "texts_given before" "texts_given after" by blast+
  show "classify_event_changes before after =
        (if coerce_text (summary before) \<noteq> coerce_text (summary after)
            \<or> coerce_text (description before) \<noteq> coerce_text (description after)
            \<or> coerce_text (categories before) \<noteq> coerce_text (categories after)
         then Modified else Unchanged)"
    unfolding texts_given_coerce [OF g] using d by (simp only: classify_cases if_False)
qed

text \<open>The decision order on New Year's Day: moved by a day, renamed, left alone.\<close>

theorem classify_decision_order_witness:
  "date_ne (dtstart new_year) (dtstart new_year_moved)
   \<and> classify_event_changes new_year new_year_moved = Moved
   \<and> \<not> date_ne (dtstart new_year) (dtstart new_year_renamed)
   \<and> \<not> date_ne (dtend new_year) (dtend new_year_renamed)
   \<and> texts_given new_year \<and> texts_given new_year_renamed
   \<and> classify_event_changes new_year new_year_renamed = Modified
   \<and> classify_event_changes new_year new_year = Unchanged"
proof -
  have h: "date_ne (dtstart new_year) (dtstart new_year_moved)"
    "\<not> date_ne (dtstart new_year) (dtstart new_year_renamed)"
    "\<not> date_ne (dtend new_year) (dtend new_year_renamed)"
    "\<not> date_ne (dtstart new_year) (dtstart new_year)"
    "\<not> date_ne (dtend new_year) (dtend new_year)"
    "texts_given new_year" "texts_given new_year_renamed"
    by (simp_all add: sample_events date_ne_def datetime_eval texts_given_def text_given_def)
  show ?thesis
    using classify_decision_order [of new_year new_year_moved]
      classify_decision_order [of new_year new_year_renamed]
      classify_decision_order [of new_year new_year] h
    by (simp add: sample_events coerce_text_def datetime_eval)
qed

text \<open>
  Claim C2 as the specification words it fails twice. The first two events differ in their
  start, all four dates are there, and the classifier answers neither \<open>DurationChanged\<close>
  nor \<open>Moved\<close>. The other two have the same dates and differ in nothing once \<^verbatim>\<open>None\<close> is
  coerced to the empty string, and the classifier answers \<open>Modified\<close>.
\<close>

theorem classify_decision_order_counterexample:
  "date_ne (dtstart mixed_event) (dtstart mixed_event_later)
   \<and> classify_event_changes mixed_event mixed_event_later \<noteq> DurationChanged
   \<and> classify_event_changes mixed_event mixed_event_later \<noteq> Moved
   \<and> \<not> date_ne (dtstart local_window) (dtstart aws_window)
   \<and> \<not> date_ne (dtend local_window) (dtend aws_window)
   \<and> coerce_text (summary local_window) = coerce_text (summary aws_window)
   \<and> coerce_text (description local_window) = coerce_text (description aws_window)
   \<and> coerce_text (categories local_window) = coerce_text (categories aws_window)
   \<and> classify_event_changes local_window aws_window = Modified"
  by (simp add: classify_cases sample_events local_window_def aws_window_def date_ne_def
      coerce_text_def get_text_def datetime_eval)

section \<open>The property differ\<close>

text \<open>
  Claim C7 at the change window whose summary is the empty string in the calendar file and
  \<^verbatim>\<open>None\<close> in the AWS document. The classifier compares \<^verbatim>\<open>str(None)\<close>, the text
  \<^verbatim>\<open>None\<close>, with the empty string and labels the pair \<open>Modified\<close>; the differ reads every
  false value as the empty string and returns no entry.
\<close>

theorem modified_pair_without_property_changes:
  "classify_event_changes local_window aws_window = Modified
   \<and> get_detailed_property_changes local_window aws_window = []"
  by (simp add: classify_cases get_detailed_property_changes_def compare_props_def
      property_changes_of_def event_get_dtstart event_get_dtend event_get_summary
      event_get_description event_get_categories local_window_def aws_window_def date_ne_def
      get_text_def datetime_eval)

text \<open>When both sides of a date property are there, the entry is of kind \<^verbatim>\<open>datetime\<close> and
  holds the two ISO-8601 strings.\<close>

lemma start_end_change_both_present:
  "property_changes_of prop (PDatetime d1) (PDatetime d2) =
     (if dt_eq d1 d2 then []
      else [\<lparr>pc_property = prop, old_value = Some (isoformat d1),
             new_value = Some (isoformat d2), pc_change_type = ''datetime''\<rparr>])"
  by (simp add: property_changes_of_def)

text \<open>
  Claim C6 at an event that gains its start date: the differ takes the string branch, so
  the entry for \<^verbatim>\<open>dtstart\<close> is of kind \<^verbatim>\<open>string\<close>, the absent side is the empty string and
  the present side is \<^verbatim>\<open>str()\<close> of the datetime, with a blank where ISO-8601 has \<^verbatim>\<open>T\<close>.
\<close>

theorem one_sided_start_reported_as_string:
  "get_detailed_property_changes new_year_no_start new_year =
     [\<lparr>pc_property = ''dtstart'', old_value = Some [],
       new_value = Some ''2024-01-01 00:00:00'', pc_change_type = ''string''\<rparr>]"
  by (simp add: get_detailed_property_changes_def compare_props_def event_get_dtstart
      event_get_dtend event_get_summary event_get_description event_get_categories
      property_changes_of_def sample_events datetime_eval format_eval)

section \<open>Dictionaries and the uid index\<close>

lemma map_fst_replace:
  "map fst (map (\<lambda>(k', v'). if k' = k then (k', v) else (k', v')) d) = map fst d"
  by (induction d) (simp_all add: case_prod_beta)

lemma map_fst_dict_set_in:
  assumes "k \<in> set (map fst d)"
  shows "map fst (dict_set d k v) = map fst d"
  unfolding dict_set_def using assms by (simp only: if_True map_fst_replace)

lemma map_fst_dict_set_out:
  assumes "k \<notin> set (map fst d)"
  shows "map fst (dict_set d k v) = map fst d @ [k]"
  unfolding dict_set_def using assms by (simp only: if_False) simp

lemma dict_set_distinct:
  assumes "distinct (map fst d)"
  shows "distinct (map fst (dict_set d k v))"
proof (cases "k \<in> set (map fst d)")
  case True
  show ?thesis using assms map_fst_dict_set_in [OF True, of v] by simp
next
  case False
  show ?thesis using assms False map_fst_dict_set_out [OF False, of v] by simp
qed



lemma by_uid_foldl: "by_uid events = foldl uid_step [] events"
  by (simp add: by_uid_def)

lemma foldl_uid_step_distinct: "distinct (map fst d) \<Longrightarrow> distinct (map fst (foldl uid_step d xs))"
  by (induction xs arbitrary: d) (auto simp: uid_step_def dict_set_distinct)

lemma by_uid_distinct: "distinct (map fst (by_uid xs))"
  by (simp add: by_uid_foldl foldl_uid_step_distinct)

lemma foldl_uid_step_filter: "foldl uid_step d (filter (\<lambda>e. uid e \<noteq> []) xs) = foldl uid_step d xs"
  by (induction xs arbitrary: d) (auto simp: uid_step_def)

lemma by_uid_filter: "by_uid (filter (\<lambda>e. uid e \<noteq> []) xs) = by_uid xs"
  by (simp add: by_uid_foldl foldl_uid_step_filter)

lemma foldl_uid_step_unique:
  "\<forall>e\<in>set xs. uid e \<noteq> [] \<Longrightarrow> distinct (map uid xs) \<Longrightarrow> set (map uid xs) \<inter> set (map fst d) = {}
   \<Longrightarrow> foldl uid_step d xs = d @ map (\<lambda>e. (uid e, e)) xs"
proof (induction xs arbitrary: d)
  case Nil
  then show ?case by simp
next
  case (Cons x xs)
  have nin: "uid x \<notin> set (map fst d)" using Cons.prems(3) by auto
  then have step: "uid_step d x = d @ [(uid x, x)]" using Cons.prems(1) by (simp add: uid_step_def dict_set_def)
  have "foldl uid_step (d @ [(uid x, x)]) xs = (d @ [(uid x, x)]) @ map (\<lambda>e. (uid e, e)) xs"
    using Cons.prems by (intro Cons.IH) auto
  then show ?case by (simp add: step)
qed

lemma by_uid_unique:
  "\<forall>e\<in>set xs. uid e \<noteq> [] \<Longrightarrow> distinct (map uid xs) \<Longrightarrow> by_uid xs = map (\<lambda>e. (uid e, e)) xs"
  using foldl_uid_step_unique[of xs "[]"] by (simp add: by_uid_foldl)

lemma dict_set_entries: "(k', v') \<in> set (dict_set d k v) \<Longrightarrow> (k', v') \<in> set d \<or> (k' = k \<and> v' = v)"
  by (auto simp: dict_set_def split: if_splits)

lemma foldl_uid_step_entries:
  "(k, e) \<in> set (foldl uid_step d xs) \<Longrightarrow> (k, e) \<in> set d \<or> (e \<in> set xs \<and> uid e = k \<and> k \<noteq> [])"
proof (induction xs arbitrary: d)
  case Nil
  then show ?case by simp
next
  case (Cons x xs)
  from Cons.IH[of "uid_step d x"] Cons.prems
  have "(k, e) \<in> set (uid_step d x) \<or> (e \<in> set xs \<and> uid e = k \<and> k \<noteq> [])" by simp
  then show ?case by (auto simp: uid_step_def dest: dict_set_entries split: if_splits)
qed

lemma by_uid_entries: "(k, e) \<in> set (by_uid xs) \<Longrightarrow> e \<in> set xs \<and> uid e = k \<and> k \<noteq> []"
  using foldl_uid_step_entries[of k e "[]" xs] by (simp add: by_uid_foldl)

section \<open>The detailed matcher in closed form\<close>

lemma added_changes_append:
  "added (changes_append ct c ch) = (if ct = Added then added ch @ [c] else added ch)"
  by (cases ct) simp_all

lemma deleted_changes_append:
  "deleted (changes_append ct c ch) = (if ct = Deleted then deleted ch @ [c] else deleted ch)"
  by (cases ct) simp_all

lemma modified_changes_append:
  "modified (changes_append ct c ch) = (if ct = Modified then modified ch @ [c] else modified ch)"
  by (cases ct) simp_all

lemma moved_changes_append:
  "moved (changes_append ct c ch) = (if ct = Moved then moved ch @ [c] else moved ch)"
  by (cases ct) simp_all

lemma duration_changed_changes_append:
  "duration_changed (changes_append ct c ch)
     = (if ct = DurationChanged then duration_changed ch @ [c] else duration_changed ch)"
  by (cases ct) simp_all

lemmas changes_append_fields = added_changes_append deleted_changes_append modified_changes_append
  moved_changes_append duration_changed_changes_append

lemma classify_not_added: "classify_event_changes e1 e2 \<noteq> Added"
  and classify_not_deleted: "classify_event_changes e1 e2 \<noteq> Deleted"
  unfolding classify_cases by (simp_all split: option.splits sum.splits)

lemma check_event2_fields:
  "added (check_event2 d1 ch item) = added ch @ added_of d1 item"
  "deleted (check_event2 d1 ch item) = deleted ch"
  "modified (check_event2 d1 ch item) = modified ch @ pair_of Modified d1 item"
  "moved (check_event2 d1 ch item) = moved ch @ pair_of Moved d1 item"
  "duration_changed (check_event2 d1 ch item) = duration_changed ch @ pair_of DurationChanged d1 item"
  using classify_not_added classify_not_deleted
  by (auto simp: check_event2_def added_of_def pair_of_def Let_def changes_append_fields
      split: prod.splits option.splits)

lemma check_event1_fields:
  "added (check_event1 d2 ch item) = added ch"
  "deleted (check_event1 d2 ch item) = deleted ch @ deleted_of d2 item"
  "modified (check_event1 d2 ch item) = modified ch"
  "moved (check_event1 d2 ch item) = moved ch"
  "duration_changed (check_event1 d2 ch item) = duration_changed ch"
  by (auto simp: check_event1_def deleted_of_def changes_append_fields split: prod.splits option.splits)

lemma foldl_check_event2_fields:
  "added (foldl (check_event2 d1) ch d2) = added ch @ concat (map (added_of d1) d2)"
  "deleted (foldl (check_event2 d1) ch d2) = deleted ch"
  "modified (foldl (check_event2 d1) ch d2) = modified ch @ concat (map (pair_of Modified d1) d2)"
  "moved (foldl (check_event2 d1) ch d2) = moved ch @ concat (map (pair_of Moved d1) d2)"
  "duration_changed (foldl (check_event2 d1) ch d2)
     = duration_changed ch @ concat (map (pair_of DurationChanged d1) d2)"
  by (induction d2 arbitrary: ch) (simp_all add: check_event2_fields)

lemma foldl_check_event1_fields:
  "added (foldl (check_event1 d2) ch d1) = added ch"
  "deleted (foldl (check_event1 d2) ch d1) = deleted ch @ concat (map (deleted_of d2) d1)"
  "modified (foldl (check_event1 d2) ch d1) = modified ch"
  "moved (foldl (check_event1 d2) ch d1) = moved ch"
  "duration_changed (foldl (check_event1 d2) ch d1) = duration_changed ch"
  by (induction d1 arbitrary: ch) (simp_all add: check_event1_fields)

lemma detect_fields:
  "added (detect_event_changes_detailed events1 events2)
     = concat (map (added_of (by_uid events1)) (by_uid events2))"
  "deleted (detect_event_changes_detailed events1 events2)
     = concat (map (deleted_of (by_uid events2)) (by_uid events1))"
  "modified (detect_event_changes_detailed events1 events2)
     = concat (map (pair_of Modified (by_uid events1)) (by_uid events2))"
  "moved (detect_event_changes_detailed events1 events2)
     = concat (map (pair_of Moved (by_uid events1)) (by_uid events2))"
  "duration_changed (detect_event_changes_detailed events1 events2)
     = concat (map (pair_of DurationChanged (by_uid events1)) (by_uid events2))"
  by (simp_all add: detect_event_changes_detailed_def Let_def foldl_check_event1_fields
      foldl_check_event2_fields no_changes_def)

lemma detect_filter:
  "detect_event_changes_detailed (filter (\<lambda>e. uid e \<noteq> []) events1) (filter (\<lambda>e. uid e \<noteq> []) events2)
     = detect_event_changes_detailed events1 events2"
  by (simp add: detect_event_changes_detailed_def by_uid_filter)

section \<open>The sort\<close>



lemma stable_sort_Nil: "stable_sort lt [] = []"
  by (simp add: stable_sort_def)








section \<open>Comparing a list with itself\<close>

lemma dt_eq_refl: "dt_eq d d"
  by (simp add: dt_eq_def split: option.splits)

lemma date_ne_refl: "\<not> date_ne v v"
  by (simp add: date_ne_def dt_eq_refl split: option.splits)

lemma classify_same: "classify_event_changes e e = Unchanged"
  by (simp add: classify_cases date_ne_refl)

lemma self_items:
  assumes "distinct (map fst d)" and "item \<in> set d"
  shows "added_of d item = []" and "deleted_of d item = []"
    and "ct \<noteq> Unchanged \<Longrightarrow> pair_of ct d item = []"
proof -
  obtain k e where item: "item = (k, e)" by (cases item)
  have look: "map_of d k = Some e" using assms by (simp add: item)
  show "added_of d item = []" by (simp add: added_of_def item look)
  show "deleted_of d item = []" by (simp add: deleted_of_def item look)
  show "ct \<noteq> Unchanged \<Longrightarrow> pair_of ct d item = []"
    by (auto simp add: pair_of_def item look classify_same)
qed

lemma detect_self: "detect_event_changes_detailed events events = no_changes"
proof -
  have d: "distinct (map fst (by_uid events))" by (rule by_uid_distinct)
  have "added (detect_event_changes_detailed events events) = []"
    "deleted (detect_event_changes_detailed events events) = []"
    "modified (detect_event_changes_detailed events events) = []"
    "moved (detect_event_changes_detailed events events) = []"
    "duration_changed (detect_event_changes_detailed events events) = []"
    by (simp_all add: detect_fields self_items [OF d])
  then show ?thesis by (simp add: no_changes_def)
qed

lemma sort_no_changes: "sort_changes_chronologically no_changes = Inr []"
  by (simp add: sort_changes_chronologically_def changes_items_def no_changes_def py_sort_def
      comparable_keys_def stable_sort_Nil)

lemma self_diff:
  "generate_event_semantic_diff events events =
     Inr \<lparr>sd_statistics = \<lparr>st_added = 0, st_deleted = 0, st_modified = 0, st_moved = 0,
            st_duration_changed = 0, st_unchanged = 2 * int (length events)\<rparr>,
          sd_changes = no_changes, sd_sorted_changes = []\<rparr>"
  by (simp add: generate_event_semantic_diff_def Let_def detect_self sort_no_changes)
     (simp add: no_changes_def)

text \<open>
  Claim C1 on a calendar of one event: the diff of the list against itself reports no change
  and an empty sequence, but \<open>unchanged = 2\<close>, twice the length of the list (lemma
  \<open>self_diff\<close> gives \<open>2 * length X\<close> for every list), where the claim has the length.
\<close>

theorem self_diff_counts_events_twice:
  "generate_event_semantic_diff [new_year] [new_year] =
     Inr \<lparr>sd_statistics = \<lparr>st_added = 0, st_deleted = 0, st_modified = 0, st_moved = 0,
            st_duration_changed = 0, st_unchanged = 2\<rparr>,
          sd_changes = no_changes, sd_sorted_changes = []\<rparr>"
  using self_diff [of "[new_year]"] by simp

section \<open>Events without uid in the detailed matcher\<close>

lemmas sample_events2 = sample_events constitution_day_def coming_of_age_day_def

lemma detect_keyed:
  "detect_event_changes_detailed (filter keyed events1) (filter keyed events2)
     = detect_event_changes_detailed events1 events2"
  using detect_filter [of events1 events2] by (simp add: keyed_def [abs_def])

lemma by_uid_lookup: "map_of (by_uid events) k = Some e \<Longrightarrow> e \<in> set events \<and> uid e = k \<and> k \<noteq> []"
  by (rule by_uid_entries) (erule map_of_SomeD)

lemma added_of_keyed:
  "(k, e2) \<in> set (by_uid events2) \<Longrightarrow> c \<in> set (added_of d1 (k, e2)) \<Longrightarrow> e \<in> set (events_of_change c)
   \<Longrightarrow> keyed e"
  by (auto simp: added_of_def keyed_def dest: by_uid_entries split: option.splits)

lemma deleted_of_keyed:
  "(k, e1) \<in> set (by_uid events1) \<Longrightarrow> c \<in> set (deleted_of d2 (k, e1)) \<Longrightarrow> e \<in> set (events_of_change c)
   \<Longrightarrow> keyed e"
  by (auto simp: deleted_of_def keyed_def dest: by_uid_entries split: option.splits)

lemma pair_of_keyed:
  assumes in2: "(k, e2) \<in> set (by_uid events2)"
    and c: "c \<in> set (pair_of ct (by_uid events1) (k, e2))"
    and e: "e \<in> set (events_of_change c)"
  shows "keyed e"
proof (cases "map_of (by_uid events1) k")
  case None
  then show ?thesis using c by (simp add: pair_of_def)
next
  case (Some e1)
  from by_uid_lookup [OF Some] have k1: "uid e1 = k" "k \<noteq> []" by simp_all
  from by_uid_entries [OF in2] have k2: "uid e2 = k" by simp
  from c Some have "c = PairChange e1 e2 (get_detailed_property_changes e1 e2) ct k"
    by (simp add: pair_of_def split: if_splits)
  with e have "e = e1 \<or> e = e2" by auto
  then show ?thesis using k1 k2 by (auto simp: keyed_def)
qed

lemma reported_events_keyed:
  assumes "c \<in> set (all_changes_of (detect_event_changes_detailed events1 events2))"
    and "e \<in> set (events_of_change c)"
  shows "keyed e"
  using assms
  by (auto simp: all_changes_of_def detect_fields
      dest: added_of_keyed deleted_of_keyed pair_of_keyed)

lemma length_keyed: "int (length events) = int (length (filter keyed events)) + int (length (filter (\<lambda>e. \<not> keyed e) events))"
  using sum_length_filter_compl [of keyed events] by simp

lemma diff_keyed:
  "generate_event_semantic_diff events1 events2 =
     map_sum id (add_unchanged (int (length (filter (\<lambda>e. \<not> keyed e) events1))
                                + int (length (filter (\<lambda>e. \<not> keyed e) events2))))
       (generate_event_semantic_diff (filter keyed events1) (filter keyed events2))"
  unfolding generate_event_semantic_diff_def Let_def detect_keyed
  by (simp add: add_unchanged_def length_keyed [of events1] length_keyed [of events2]
      split: sum.splits)

text \<open>
  Claim C10: the detailed matcher ignores every event whose uid is empty. Its result is the
  result on the two lists with these events removed, whatever their start or summary; no
  record of \<^verbatim>\<open>added\<close>, \<^verbatim>\<open>deleted\<close>, \<^verbatim>\<open>modified\<close>, \<^verbatim>\<open>moved\<close> or
  \<^verbatim>\<open>duration_changed\<close> holds such an event; and the semantic diff differs from the diff
  of the lists without them only in \<open>unchanged\<close>, which grows by their number.
\<close>

theorem unkeyed_events_ignored:
  "detect_event_changes_detailed events1 events2
     = detect_event_changes_detailed (filter keyed events1) (filter keyed events2)
   \<and> (\<forall>c \<in> set (all_changes_of (detect_event_changes_detailed events1 events2)).
         \<forall>e \<in> set (events_of_change c). keyed e)
   \<and> generate_event_semantic_diff events1 events2 =
       map_sum id (add_unchanged (int (length (filter (\<lambda>e. \<not> keyed e) events1))
                                  + int (length (filter (\<lambda>e. \<not> keyed e) events2))))
         (generate_event_semantic_diff (filter keyed events1) (filter keyed events2))"
  using detect_keyed [of events1 events2] reported_events_keyed [of _ events1 events2]
    diff_keyed [of events1 events2]
  by auto

text \<open>Constitution Day without uid, on both sides, next to a renamed New Year's Day.\<close>

theorem unkeyed_events_ignored_witness:
  "detect_event_changes_detailed [constitution_day, new_year] [new_year_renamed, constitution_day]
     = detect_event_changes_detailed [new_year] [new_year_renamed]
   \<and> generate_event_semantic_diff [constitution_day, new_year] [new_year_renamed, constitution_day]
     = map_sum id (add_unchanged 2) (generate_event_semantic_diff [new_year] [new_year_renamed])"
  using unkeyed_events_ignored [of "[constitution_day, new_year]" "[new_year_renamed, constitution_day]"]
  by (simp add: keyed_def sample_events2)

section \<open>The matcher partitions its input\<close>

lemma matched_pairs_alt:
  "matched_pairs events1 events2 = concat (map (pairs_at (by_uid events1)) (by_uid events2))"
  by (simp add: matched_pairs_def pairs_at_def [abs_def])

lemma after_side:
  "mset (concat (map change_event (concat (map (added_of d1) d2))))
     + mset (map snd (concat (map (pairs_at d1) d2))) = mset (map snd d2)"
  by (induction d2) (auto simp: added_of_def pairs_at_def split: option.splits)

lemma deleted_events:
  "concat (map change_event (concat (map (deleted_of d2) d1)))
     = map snd (filter (\<lambda>item. map_of d2 (fst item) = None) d1)"
  by (induction d1) (auto simp: deleted_of_def split: option.splits)

lemma pair_befores:
  "map fst (concat (map (pairs_at d1) d2))
     = map (\<lambda>k. the (map_of d1 k)) (filter (\<lambda>k. map_of d1 k \<noteq> None) (map fst d2))"
  by (induction d2) (auto simp: pairs_at_def split: option.splits)

lemma values_by_key:
  assumes "distinct (map fst d1)"
  shows "map snd (filter (\<lambda>item. Q (fst item)) d1)
     = map (\<lambda>k. the (map_of d1 k)) (filter Q (map fst d1))"
proof -
  have "map (\<lambda>k. the (map_of d1 k)) (filter Q (map fst d1))
      = map (\<lambda>item. the (map_of d1 (fst item))) (filter (\<lambda>item. Q (fst item)) d1)"
    by (simp add: filter_map comp_def)
  also have "\<dots> = map snd (filter (\<lambda>item. Q (fst item)) d1)"
  proof (rule map_cong [OF refl])
    fix item assume "item \<in> set (filter (\<lambda>item. Q (fst item)) d1)"
    then have "item \<in> set d1" by simp
    moreover obtain k e where "item = (k, e)" by (cases item)
    ultimately have "map_of d1 (fst item) = Some (snd item)" using assms by simp
    then show "the (map_of d1 (fst item)) = snd item" by simp
  qed
  finally show ?thesis by simp
qed

lemma common_keys:
  assumes "distinct (map fst d1)" and "distinct (map fst d2)"
  shows "mset (filter (\<lambda>k. map_of d1 k \<noteq> None) (map fst d2))
       = mset (filter (\<lambda>k. map_of d2 k \<noteq> None) (map fst d1))"
proof (rule iffD1 [OF set_eq_iff_mset_eq_distinct])
  show "distinct (filter (\<lambda>k. map_of d1 k \<noteq> None) (map fst d2))" using assms by simp
  show "distinct (filter (\<lambda>k. map_of d2 k \<noteq> None) (map fst d1))" using assms by simp
  show "set (filter (\<lambda>k. map_of d1 k \<noteq> None) (map fst d2))
      = set (filter (\<lambda>k. map_of d2 k \<noteq> None) (map fst d1))"
    by (auto simp: map_of_eq_None_iff)
qed

lemma before_side:
  assumes d1: "distinct (map fst d1)" and d2: "distinct (map fst d2)"
  shows "mset (concat (map change_event (concat (map (deleted_of d2) d1))))
     + mset (map fst (concat (map (pairs_at d1) d2))) = mset (map snd d1)"
proof -
  have "mset (map fst (concat (map (pairs_at d1) d2)))
      = image_mset (\<lambda>k. the (map_of d1 k)) (mset (filter (\<lambda>k. map_of d1 k \<noteq> None) (map fst d2)))"
    by (simp only: pair_befores mset_map)
  also have "\<dots> = image_mset (\<lambda>k. the (map_of d1 k)) (mset (filter (\<lambda>k. map_of d2 k \<noteq> None) (map fst d1)))"
    by (simp only: common_keys [OF d1 d2])
  also have "\<dots> = mset (map snd (filter (\<lambda>item. map_of d2 (fst item) \<noteq> None) d1))"
    by (simp only: values_by_key [OF d1, of "\<lambda>k. map_of d2 k \<noteq> None"] mset_map)
  finally have pairs: "mset (map fst (concat (map (pairs_at d1) d2)))
      = mset (map snd (filter (\<lambda>item. map_of d2 (fst item) \<noteq> None) d1))" .
  have "mset (map snd (filter (\<lambda>item. map_of d2 (fst item) = None) d1))
      + mset (map snd (filter (\<lambda>item. map_of d2 (fst item) \<noteq> None) d1)) = mset (map snd d1)"
    by (induction d1) auto
  then show ?thesis by (simp only: deleted_events pairs)
qed

lemma values_unique:
  "\<forall>e\<in>set events. keyed e \<Longrightarrow> distinct (map uid events) \<Longrightarrow> map snd (by_uid events) = events"
  by (simp add: by_uid_unique keyed_def comp_def)

lemma partition_general:
  "mset (concat (map change_event (deleted (detect_event_changes_detailed events1 events2))))
       + mset (map fst (matched_pairs events1 events2)) = mset (map snd (by_uid events1))"
  "mset (concat (map change_event (added (detect_event_changes_detailed events1 events2))))
       + mset (map snd (matched_pairs events1 events2)) = mset (map snd (by_uid events2))"
  by (simp_all only: detect_fields matched_pairs_alt after_side
      before_side [OF by_uid_distinct by_uid_distinct])

text \<open>
  What the detailed matcher does report: across \<^verbatim>\<open>deleted\<close> and the before-sides of the
  matched pairs appear, each once, the events stored in the uid index of the first list, and
  across \<^verbatim>\<open>added\<close> and the after-sides those of the index of the second list. The index
  of a list holds the whole list when every event has a non-empty uid and no two events
  share one.
\<close>

lemma indexed_events_partition:
  "mset (concat (map change_event (deleted (detect_event_changes_detailed events1 events2))))
       + mset (map fst (matched_pairs events1 events2)) = mset (map snd (by_uid events1))
   \<and> mset (concat (map change_event (added (detect_event_changes_detailed events1 events2))))
       + mset (map snd (matched_pairs events1 events2)) = mset (map snd (by_uid events2))
   \<and> ((\<forall>e\<in>set events1. keyed e) \<and> distinct (map uid events1)
        \<longrightarrow> map snd (by_uid events1) = events1)
   \<and> ((\<forall>e\<in>set events2. keyed e) \<and> distinct (map uid events2)
        \<longrightarrow> map snd (by_uid events2) = events2)"
  using partition_general [of events1 events2] values_unique [of events1] values_unique [of events2]
  by simp

text \<open>
  Claim C3 at a first list that holds one event without uid, against an empty second list.
  The docstring of \<^verbatim>\<open>detect_event_changes_detailed\<close> announces the uid as primary key and
  start and summary as secondary key, but the body files events by uid only: the event is
  not in \<^verbatim>\<open>deleted\<close>, it is the before-side of no pair, and all five lists of the result
  are empty.
\<close>

theorem unkeyed_event_in_no_set:
  "uid constitution_day = []
   \<and> detect_event_changes_detailed [constitution_day] [] = no_changes
   \<and> deleted (detect_event_changes_detailed [constitution_day] []) = []
   \<and> matched_pairs [constitution_day] [] = []"
  by (simp add: detect_event_changes_detailed_def no_changes_def matched_pairs_def by_uid_def
      uid_step_def constitution_day_def holiday_def)

text \<open>The pairs of \<open>matched_pairs\<close> are the ones the matcher classifies: its three lists of
  pair records hold the pairs with the respective label.\<close>

lemma pair_changes_from_matched_pairs:
  assumes "\<forall>item\<in>set d2. uid (snd item) = fst item"
  shows "concat (map (pair_of ct d1) d2)
     = map (\<lambda>p. PairChange (fst p) (snd p) (get_detailed_property_changes (fst p) (snd p)) ct
                  (uid (snd p)))
         (filter (\<lambda>p. classify_event_changes (fst p) (snd p) = ct) (concat (map (pairs_at d1) d2)))"
  using assms by (induction d2) (auto simp: pair_of_def pairs_at_def split: option.splits)

lemma classified_pairs:
  "modified (detect_event_changes_detailed events1 events2)
     = map (\<lambda>p. PairChange (fst p) (snd p) (get_detailed_property_changes (fst p) (snd p)) Modified
                  (uid (snd p)))
         (filter (\<lambda>p. classify_event_changes (fst p) (snd p) = Modified)
            (matched_pairs events1 events2))"
  "moved (detect_event_changes_detailed events1 events2)
     = map (\<lambda>p. PairChange (fst p) (snd p) (get_detailed_property_changes (fst p) (snd p)) Moved
                  (uid (snd p)))
         (filter (\<lambda>p. classify_event_changes (fst p) (snd p) = Moved)
            (matched_pairs events1 events2))"
  "duration_changed (detect_event_changes_detailed events1 events2)
     = map (\<lambda>p. PairChange (fst p) (snd p) (get_detailed_property_changes (fst p) (snd p))
                  DurationChanged (uid (snd p)))
         (filter (\<lambda>p. classify_event_changes (fst p) (snd p) = DurationChanged)
            (matched_pairs events1 events2))"
  using by_uid_entries [of _ _ events2]
  by (simp_all add: detect_fields matched_pairs_alt pair_changes_from_matched_pairs)

section \<open>The chronological sequence\<close>

lemmas sample_events3 = sample_events2 adults_day_def

lemmas matcher_eval = detect_event_changes_detailed_def by_uid_def uid_step_def dict_set_def
  check_event2_def check_event1_def no_changes_def

lemmas sorter_eval = sort_changes_chronologically_def changes_items_def py_sort_def
  comparable_keys_def sort_key_of_def event_get_default_def event_item_def stable_sort_def






















text \<open>A naive start on one side and an aware one on the other: the sort raises, and the
  semantic diff fails with \<^verbatim>\<open>ICSAnalysisError\<close>.\<close>

lemma mixed_zones_raise:
  "sort_changes_chronologically (detect_event_changes_detailed [coming_of_age_day] [utc_day])
     = Inl TypeError"
  "generate_event_semantic_diff [coming_of_age_day] [utc_day] = Inl ICSAnalysisError"
  by (simp_all add: generate_event_semantic_diff_def matcher_eval sorter_eval sample_events3
      utc_day_def datetime_eval)

section \<open>Events without uid in the simple matcher\<close>

lemmas sample_events4 = sample_events3 utc_day_def greenery_day_def undated_day_def childrens_day_def
  boys_festival_def

lemmas simple_eval = detect_event_changes_def collect_simple_changes_def by_uid_def uid_step_def
  by_dtstart_def dtstart_step_def dict_set_def set_difference_def set_intersection_def keyed_def
  start_key_def event_get_def event_item_def py_sort_def comparable_keys_def stable_sort_def
  modified_of_def unchanged_of_def in_order_def backwards_def















lemma in_order_visits: "\<forall>ks. set (in_order ks) = set ks"
  by (simp add: in_order_def)



text \<open>An event with neither uid nor start is dropped, whatever its summary; one with a
  start and no counterpart is reported as deleted.\<close>

lemma undated_unkeyed_never_reported:
  "detect_event_changes in_order [undated_day] [] =
     Inr \<lparr>s_added = [], s_deleted = [], s_modified = [], s_unchanged = []\<rparr>"
  by (simp add: simple_eval sample_events4 datetime_eval format_eval)

lemma dated_unkeyed_reported:
  "detect_event_changes in_order [constitution_day] [] =
     Inr \<lparr>s_added = [], s_deleted = [SimpleEvent constitution_day Deleted], s_modified = [],
          s_unchanged = []\<rparr>"
  by (simp add: simple_eval sample_events4 datetime_eval format_eval)

section \<open>The AWS adapter\<close>

lemma json_get_object:
  "json_get (JObj fs) k dflt = Inr (case map_of fs k of None \<Rightarrow> dflt | Some v \<Rightarrow> v)"
  by simp

lemma normalize_event_object:
  "normalize_event lib draw (JObj fs) =
     Inr \<lparr>c_uid = (case map_of fs ''id'' of None \<Rightarrow> JStr (''aws-change-calendar-'' @ draw) | Some v \<Rightarrow> v),
          c_summary = (case map_of fs ''summary'' of None \<Rightarrow> JStr ''AWS Change Calendar Event'' | Some v \<Rightarrow> v),
          c_dtstart = parse_aws_datetime lib (field_of (JObj fs) ''start''),
          c_dtend = parse_aws_datetime lib (field_of (JObj fs) ''end''),
          c_description = (case map_of fs ''description'' of None \<Rightarrow> JStr [] | Some v \<Rightarrow> v),
          c_categories = ''AWS-Change-Calendar''\<rparr>"
  unfolding normalize_event_def field_of_def by (simp only: json_get_object sum.case json.case)

lemma try_formats_None:
  "list_all (\<lambda>fmt. strptime lib s fmt = None) fmts \<Longrightarrow> try_formats lib s fmts = None"
  by (induction fmts) simp_all

lemma unparsable_None:
  assumes "unparsable lib v"
  shows "parse_aws_datetime lib v = None"
proof (cases v)
  case (JStr s)
  with assms have f: "try_formats lib s aws_formats = None"
    and d: "(case dateutil_parse lib s of DateutilResult d \<Rightarrow> False | _ \<Rightarrow> True)"
    by (simp_all add: unparsable_def try_formats_None)
  from d have "dateutil_parse lib s = DateutilMissing \<or> dateutil_parse lib s = DateutilError"
    by (cases "dateutil_parse lib s") simp_all
  with f JStr show ?thesis
    by (auto simp: parse_aws_datetime_def parse_aws_datetime_body_def)
qed (simp_all add: parse_aws_datetime_def parse_aws_datetime_body_def)

lemma events_loop_total:
  assumes "list_all is_object rs"
  shows "\<exists>evs. events_loop lib uuid4 n rs = Inr evs \<and> length evs = length rs
           \<and> (\<forall>i<length rs. normalize_event lib (uuid4 (n + i)) (rs ! i) = Inr (evs ! i))"
  using assms
proof (induction rs arbitrary: n)
  case Nil
  show ?case by simp
next
  case (Cons r rs)
  from Cons.prems obtain fs where r: "r = JObj fs" by (cases r) (simp_all add: is_object_def)
  from Cons.prems have "list_all is_object rs" by simp
  from Cons.IH [OF this, of "Suc n"] obtain evs where
    evs: "events_loop lib uuid4 (Suc n) rs = Inr evs" "length evs = length rs"
      "\<forall>i<length rs. normalize_event lib (uuid4 (Suc n + i)) (rs ! i) = Inr (evs ! i)" by blast
  obtain ev where ev: "normalize_event lib (uuid4 n) r = Inr ev"
    unfolding r normalize_event_object by blast
  have "events_loop lib uuid4 n (r # rs) = Inr (ev # evs)" using ev evs(1) by simp
  moreover have "length (ev # evs) = length (r # rs)" using evs(2) by simp
  moreover have "\<forall>i<length (r # rs). normalize_event lib (uuid4 (n + i)) ((r # rs) ! i) = Inr ((ev # evs) ! i)"
  proof (intro allI impI)
    fix i assume "i < length (r # rs)"
    then show "normalize_event lib (uuid4 (n + i)) ((r # rs) ! i) = Inr ((ev # evs) ! i)"
      using ev evs(3) by (cases i) simp_all
  qed
  ultimately show ?case by blast
qed

lemma normalize_period_object:
  "normalize_period lib draw (JObj doc) (JObj fs) =
     Inr (if has_times (JObj fs) then
            Some \<lparr>c_uid = JStr (''aws-change-calendar-'' @ draw),
               c_summary = JStr (''AWS Change Calendar: ''
                 @ py_format lib (case map_of doc ''name'' of None \<Rightarrow> JStr ''Unknown'' | Some v \<Rightarrow> v)),
               c_dtstart = parse_aws_datetime lib (field_of (JObj fs) ''start''),
               c_dtend = parse_aws_datetime lib (field_of (JObj fs) ''end''),
               c_description = JStr (''AWS Change Calendar period: ''
                 @ py_format lib (case map_of fs ''description'' of None \<Rightarrow> JStr [] | Some v \<Rightarrow> v)),
               c_categories = ''AWS-Change-Calendar''\<rparr>
          else None)"
  by (simp add: normalize_period_def field_of_def has_times_def)

lemma periods_loop_total:
  assumes "list_all is_object ps"
  shows "\<exists>evs. periods_loop lib uuid4 n (JObj doc) ps = Inr evs
           \<and> length evs = length (filter has_times ps)
           \<and> (\<forall>i<length (filter has_times ps).
                 normalize_period lib (uuid4 (n + i)) (JObj doc) (filter has_times ps ! i)
                   = Inr (Some (evs ! i)))"
  using assms
proof (induction ps arbitrary: n)
  case Nil
  show ?case by simp
next
  case (Cons p ps)
  from Cons.prems obtain fs where p: "p = JObj fs" by (cases p) (simp_all add: is_object_def)
  from Cons.prems have rest: "list_all is_object ps" by simp
  show ?case
  proof (cases "has_times p")
    case False
    then have skip: "normalize_period lib (uuid4 n) (JObj doc) p = Inr None"
      unfolding p normalize_period_object by simp
    from Cons.IH [OF rest, of n] obtain evs where
      evs: "periods_loop lib uuid4 n (JObj doc) ps = Inr evs"
        "length evs = length (filter has_times ps)"
        "\<forall>i<length (filter has_times ps).
            normalize_period lib (uuid4 (n + i)) (JObj doc) (filter has_times ps ! i)
              = Inr (Some (evs ! i))" by blast
    have "periods_loop lib uuid4 n (JObj doc) (p # ps) = Inr evs" using skip evs(1) by simp
    then show ?thesis using evs(2,3) False by simp
  next
    case True
    then obtain ev where ev: "normalize_period lib (uuid4 n) (JObj doc) p = Inr (Some ev)"
      unfolding p normalize_period_object by simp
    from Cons.IH [OF rest, of "Suc n"] obtain evs where
      evs: "periods_loop lib uuid4 (Suc n) (JObj doc) ps = Inr evs"
        "length evs = length (filter has_times ps)"
        "\<forall>i<length (filter has_times ps).
            normalize_period lib (uuid4 (Suc n + i)) (JObj doc) (filter has_times ps ! i)
              = Inr (Some (evs ! i))" by blast
    have "periods_loop lib uuid4 n (JObj doc) (p # ps) = Inr (ev # evs)"
      using ev evs(1) by simp
    moreover have "length (ev # evs) = length (filter has_times (p # ps))"
      using evs(2) True by simp
    moreover have "\<forall>i<length (filter has_times (p # ps)).
        normalize_period lib (uuid4 (n + i)) (JObj doc) (filter has_times (p # ps) ! i)
          = Inr (Some ((ev # evs) ! i))"
    proof (intro allI impI)
      fix i assume "i < length (filter has_times (p # ps))"
      then show "normalize_period lib (uuid4 (n + i)) (JObj doc) (filter has_times (p # ps) ! i)
          = Inr (Some ((ev # evs) ! i))"
        using ev evs(3) True by (cases i) simp_all
    qed
    ultimately show ?thesis by blast
  qed
qed

lemma events_layout_cases:
  assumes "events_layout lib document records"
  obtains doc where "json_loads lib document = Some (JObj doc)"
    and "map_of doc ''events'' = Some (JArr records)" and "records \<noteq> []"
    and "list_all is_object records"
proof (cases "json_loads lib document")
  case None
  with assms show ?thesis by (simp add: events_layout_def)
next
  case (Some v)
  with assms that show ?thesis by (cases v) (simp_all add: events_layout_def)
qed

lemma periods_layout_cases:
  assumes "periods_layout lib document periods"
  obtains doc schedule where "json_loads lib document = Some (JObj doc)"
    and "\<not> json_truthy (field_of (JObj doc) ''events'')"
    and "map_of doc ''schedule'' = Some (JObj schedule)"
    and "map_of schedule ''periods'' = Some (JArr periods)"
    and "list_all is_object periods"
proof (cases "json_loads lib document")
  case None
  with assms show ?thesis by (simp add: periods_layout_def)
next
  case (Some v)
  show ?thesis
  proof (cases v)
    case (JObj doc)
    with Some assms have e: "\<not> json_truthy (field_of (JObj doc) ''events'')"
      and s: "(case map_of doc ''schedule'' of
                Some (JObj schedule) \<Rightarrow>
                  map_of schedule ''periods'' = Some (JArr periods) \<and> list_all is_object periods
              | _ \<Rightarrow> False)"
      by (simp_all add: periods_layout_def)
    show ?thesis
    proof (cases "map_of doc ''schedule''")
      case None
      with s show ?thesis by simp
    next
      case (Some w)
      with s that [OF \<open>json_loads lib document = Some v\<close> [unfolded JObj] e] show ?thesis
        by (cases w) simp_all
    qed
  qed (use Some assms in \<open>simp_all add: periods_layout_def\<close>)
qed

lemma events_layout_body:
  assumes "events_layout lib document records"
  shows "normalize_body lib uuid4 document = events_loop lib uuid4 0 records"
proof -
  from assms obtain doc where d: "json_loads lib document = Some (JObj doc)"
    and e: "map_of doc ''events'' = Some (JArr records)" and n: "records \<noteq> []"
    by (rule events_layout_cases)
  show ?thesis unfolding normalize_body_def using n by (simp add: d e)
qed

lemma periods_layout_body:
  assumes "periods_layout lib document periods"
  shows "\<exists>doc. normalize_body lib uuid4 document = periods_loop lib uuid4 0 (JObj doc) periods"
proof -
  from assms obtain doc schedule where d: "json_loads lib document = Some (JObj doc)"
    and e: "\<not> json_truthy (field_of (JObj doc) ''events'')"
    and s: "map_of doc ''schedule'' = Some (JObj schedule)"
    and p: "map_of schedule ''periods'' = Some (JArr periods)"
    by (rule periods_layout_cases)
  from p have ne: "schedule \<noteq> []" by auto
  from e have e': "\<not> json_truthy (case map_of doc ''events'' of None \<Rightarrow> JArr [] | Some v \<Rightarrow> v)"
    by (cases "map_of doc ''events''") (simp_all add: field_of_def)
  have "normalize_body lib uuid4 document = periods_loop lib uuid4 0 (JObj doc) periods"
    unfolding normalize_body_def using e' ne by (simp add: d s p)
  then show ?thesis by blast
qed

lemma layouts_objects:
  "events_layout lib document records \<Longrightarrow> list_all is_object records"
  "periods_layout lib document periods \<Longrightarrow> list_all is_object periods"
  by (erule events_layout_cases, assumption) (erule periods_layout_cases, assumption)

lemma normalize_Inr:
  "normalize_body lib uuid4 document = Inr evs \<Longrightarrow> normalize_aws_calendar_to_ics lib uuid4 document = Inr evs"
  by (simp add: normalize_aws_calendar_to_ics_def)

subsection \<open>What the adapter returns on a document of either layout\<close>

lemma events_layout_result:
  assumes "events_layout lib document records"
  shows "\<exists>evs. normalize_aws_calendar_to_ics lib uuid4 document = Inr evs \<and> length evs = length records
           \<and> (\<forall>i<length records. normalize_event lib (uuid4 i) (records ! i) = Inr (evs ! i))"
  using events_loop_total [OF layouts_objects(1) [OF assms], of lib uuid4 0]
    events_layout_body [OF assms, of uuid4] normalize_Inr [of lib uuid4 document]
  by auto

lemma periods_layout_result:
  assumes "periods_layout lib document periods"
  shows "\<exists>evs doc. normalize_aws_calendar_to_ics lib uuid4 document = Inr evs
           \<and> length evs = length (filter has_times periods)
           \<and> (\<forall>i<length (filter has_times periods).
                 normalize_period lib (uuid4 i) (JObj doc) (filter has_times periods ! i)
                   = Inr (Some (evs ! i)))"
proof -
  from periods_layout_body [OF assms, of uuid4] obtain doc where
    b: "normalize_body lib uuid4 document = periods_loop lib uuid4 0 (JObj doc) periods" by blast
  from periods_loop_total [OF layouts_objects(2) [OF assms], of lib uuid4 0 doc] obtain evs where
    evs: "periods_loop lib uuid4 0 (JObj doc) periods = Inr evs"
      "length evs = length (filter has_times periods)"
      "\<forall>i<length (filter has_times periods).
          normalize_period lib (uuid4 (0 + i)) (JObj doc) (filter has_times periods ! i)
            = Inr (Some (evs ! i))" by blast
  from b evs(1) have "normalize_aws_calendar_to_ics lib uuid4 document = Inr evs"
    by (simp add: normalize_Inr)
  with evs(2,3) show ?thesis by auto
qed

lemma event_dates:
  assumes "is_object r" and "normalize_event lib draw r = Inr ev"
  shows "c_dtstart ev = parse_aws_datetime lib (field_of r ''start'')"
    and "c_dtend ev = parse_aws_datetime lib (field_of r ''end'')"
    and "lacks_id r \<Longrightarrow> c_uid ev = JStr (''aws-change-calendar-'' @ draw)"
proof -
  from assms(1) obtain fs where r: "r = JObj fs" by (cases r) (simp_all add: is_object_def)
  from assms(2) show "c_dtstart ev = parse_aws_datetime lib (field_of r ''start'')"
    and "c_dtend ev = parse_aws_datetime lib (field_of r ''end'')"
    and "lacks_id r \<Longrightarrow> c_uid ev = JStr (''aws-change-calendar-'' @ draw)"
    unfolding r normalize_event_object by (auto simp: lacks_id_def)
qed

lemma period_dates:
  assumes "is_object p" and "normalize_period lib draw (JObj doc) p = Inr (Some ev)"
  shows "c_dtstart ev = parse_aws_datetime lib (field_of p ''start'')"
    and "c_dtend ev = parse_aws_datetime lib (field_of p ''end'')"
    and "c_uid ev = JStr (''aws-change-calendar-'' @ draw)"
proof -
  from assms(1) obtain fs where p: "p = JObj fs" by (cases p) (simp_all add: is_object_def)
  from assms(2) show "c_dtstart ev = parse_aws_datetime lib (field_of p ''start'')"
    and "c_dtend ev = parse_aws_datetime lib (field_of p ''end'')"
    and "c_uid ev = JStr (''aws-change-calendar-'' @ draw)"
    unfolding p normalize_period_object by (auto split: if_splits)
qed

lemma dates_policy_parsed:
  assumes "c_dtstart ev = parse_aws_datetime lib (field_of r ''start'')"
    and "c_dtend ev = parse_aws_datetime lib (field_of r ''end'')"
  shows "dates_policy lib r ev"
  unfolding dates_policy_def using assms by (simp add: unparsable_None)

lemma events_layout_policy:
  assumes "events_layout lib document records"
  shows "\<exists>events. normalize_aws_calendar_to_ics lib uuid4 document = Inr events
           \<and> list_all2 (dates_policy lib) records events"
proof -
  from events_layout_result [OF assms, of uuid4] obtain evs where
    r: "normalize_aws_calendar_to_ics lib uuid4 document = Inr evs" and l: "length evs = length records"
    and e: "\<forall>i<length records. normalize_event lib (uuid4 i) (records ! i) = Inr (evs ! i)"
    by blast
  have "list_all2 (dates_policy lib) records evs"
    unfolding list_all2_conv_all_nth
  proof (intro conjI allI impI)
    show "length records = length evs" using l by simp
  next
    fix i assume i: "i < length records"
    then have o: "is_object (records ! i)"
      using layouts_objects(1) [OF assms] by (simp add: list_all_length)
    from e i have n: "normalize_event lib (uuid4 i) (records ! i) = Inr (evs ! i)" by blast
    show "dates_policy lib (records ! i) (evs ! i)"
      using event_dates(1,2) [OF o n] by (rule dates_policy_parsed)
  qed
  with r show ?thesis by blast
qed

lemma filter_objects:
  "list_all is_object ps \<Longrightarrow> list_all is_object (filter P ps)"
  by (induction ps) simp_all

lemma periods_layout_policy:
  assumes "periods_layout lib document periods"
  shows "\<exists>events. normalize_aws_calendar_to_ics lib uuid4 document = Inr events
           \<and> list_all2 (dates_policy lib) (filter has_times periods) events"
proof -
  from periods_layout_result [OF assms, of uuid4] obtain evs doc where
    r: "normalize_aws_calendar_to_ics lib uuid4 document = Inr evs"
    and l: "length evs = length (filter has_times periods)"
    and e: "\<forall>i<length (filter has_times periods).
              normalize_period lib (uuid4 i) (JObj doc) (filter has_times periods ! i)
                = Inr (Some (evs ! i))"
    by blast
  have "list_all2 (dates_policy lib) (filter has_times periods) evs"
    unfolding list_all2_conv_all_nth
  proof (intro conjI allI impI)
    show "length (filter has_times periods) = length evs" using l by simp
  next
    fix i assume i: "i < length (filter has_times periods)"
    then have o: "is_object (filter has_times periods ! i)"
      using filter_objects [OF layouts_objects(2) [OF assms], of has_times]
      by (simp add: list_all_length)
    from e i have n: "normalize_period lib (uuid4 i) (JObj doc) (filter has_times periods ! i)
        = Inr (Some (evs ! i))" by blast
    show "dates_policy lib (filter has_times periods ! i) (evs ! i)"
      using period_dates(1,2) [OF o n] by (rule dates_policy_parsed)
  qed
  with r show ?thesis by blast
qed

text \<open>
  Claim C8, as the code has it. A start or end value that none of the five formats and not
  dateutil parses is turned into \<open>None\<close> by \<^verbatim>\<open>_parse_aws_datetime\<close>, which has no way of
  raising. On a document in the events layout the adapter returns one event for each
  record. On a document in the older layout it returns one event for each period whose
  start and end are both true values, in the order of the periods; a period whose start or
  end is empty or missing is passed over by \<^verbatim>\<open>if start_time and end_time\<close> and gives no
  event. In both layouts the start (the end) of an event is \<open>None\<close> when the start (the end)
  of its record is unparsable. So the adapter returns, and does not raise, whatever the
  dates are.
\<close>

theorem unparsable_dates_yield_None:
  "(unparsable lib v \<longrightarrow> parse_aws_datetime lib v = None)
   \<and> (events_layout lib document records \<longrightarrow>
        (\<exists>events. normalize_aws_calendar_to_ics lib uuid4 document = Inr events
           \<and> list_all2 (dates_policy lib) records events))
   \<and> (periods_layout lib document periods \<longrightarrow>
        (\<exists>events. normalize_aws_calendar_to_ics lib uuid4 document = Inr events
           \<and> list_all2 (dates_policy lib) (filter has_times periods) events))"
  using unparsable_None [of lib v] events_layout_policy [of lib document records uuid4]
    periods_layout_policy [of lib document periods uuid4]
  by blast

subsection \<open>The sample documents\<close>

lemmas adapter_samples = sample_record_def sample_document_def sample_calendar_def
  legacy_document_def legacy_calendar_def sample_lib_def first_run_def second_run_def quoted_def

lemma documents_differ:
  "legacy_document \<noteq> sample_document"
  "blank_document \<noteq> sample_document"
  "blank_document \<noteq> legacy_document"
  by (simp_all add: adapter_samples blank_document_def)

lemma sample_loads:
  "json_loads sample_lib sample_document = Some sample_calendar"
  "json_loads sample_lib legacy_document = Some legacy_calendar"
  "json_loads sample_lib blank_document = Some blank_calendar"
  using documents_differ by (simp_all add: sample_lib_def)

lemma sample_layouts:
  "events_layout sample_lib sample_document [sample_record]"
  "periods_layout sample_lib legacy_document [sample_record]"
  "lacks_id sample_record"
  "has_times sample_record"
  unfolding events_layout_def periods_layout_def sample_loads
  by (simp_all add: sample_calendar_def legacy_calendar_def sample_record_def is_object_def
      field_of_def lacks_id_def has_times_def)

lemma sample_dates:
  "parse_aws_datetime sample_lib (JStr ''2024-05-03'') = Some (midnight 2024 5 3)"
  "parse_aws_datetime sample_lib (JStr ''someday'') = None"
  "unparsable sample_lib (JStr ''someday'')"
  by (simp_all add: parse_aws_datetime_def parse_aws_datetime_body_def aws_formats_def
      sample_lib_def unparsable_def)

lemma sample_format: "py_format sample_lib (JStr s) = s"
  by (simp add: sample_lib_def)

lemma sample_run:
  "normalize_aws_calendar_to_ics sample_lib uuid4 sample_document =
     Inr [\<lparr>c_uid = JStr (''aws-change-calendar-'' @ uuid4 0),
           c_summary = JStr ''AWS Change Calendar Event'',
           c_dtstart = Some (midnight 2024 5 3), c_dtend = None,
           c_description = JStr [], c_categories = ''AWS-Change-Calendar''\<rparr>]"
proof -
  have "normalize_body sample_lib uuid4 sample_document = events_loop sample_lib uuid4 0 [sample_record]"
    by (rule events_layout_body [OF sample_layouts(1)])
  also have "\<dots> = Inr [\<lparr>c_uid = JStr (''aws-change-calendar-'' @ uuid4 0),
           c_summary = JStr ''AWS Change Calendar Event'',
           c_dtstart = Some (midnight 2024 5 3), c_dtend = None,
           c_description = JStr [], c_categories = ''AWS-Change-Calendar''\<rparr>]"
    by (simp add: sample_record_def normalize_event_object field_of_def sample_dates)
  finally show ?thesis by (rule normalize_Inr)
qed

lemma legacy_run:
  "normalize_aws_calendar_to_ics sample_lib uuid4 legacy_document =
     Inr [\<lparr>c_uid = JStr (''aws-change-calendar-'' @ uuid4 0),
           c_summary = JStr ''AWS Change Calendar: Unknown'',
           c_dtstart = Some (midnight 2024 5 3), c_dtend = None,
           c_description = JStr ''AWS Change Calendar period: '',
           c_categories = ''AWS-Change-Calendar''\<rparr>]"
proof -
  have "normalize_body sample_lib uuid4 legacy_document
      = periods_loop sample_lib uuid4 0 legacy_calendar [sample_record]"
    unfolding normalize_body_def sample_loads
    by (simp add: legacy_calendar_def)
  also have "\<dots> = Inr [\<lparr>c_uid = JStr (''aws-change-calendar-'' @ uuid4 0),
           c_summary = JStr ''AWS Change Calendar: Unknown'',
           c_dtstart = Some (midnight 2024 5 3), c_dtend = None,
           c_description = JStr ''AWS Change Calendar period: '',
           c_categories = ''AWS-Change-Calendar''\<rparr>]"
    using sample_layouts(4)
    by (simp add: legacy_calendar_def sample_record_def normalize_period_object field_of_def
        sample_dates sample_format)
  finally show ?thesis by (rule normalize_Inr)
qed

text \<open>The policy on the two sample documents, whose end \<^verbatim>\<open>someday\<close> is no date.\<close>

theorem unparsable_dates_yield_None_witness:
  "unparsable sample_lib (JStr ''someday'')
   \<and> parse_aws_datetime sample_lib (JStr ''someday'') = None
   \<and> events_layout sample_lib sample_document [sample_record]
   \<and> normalize_aws_calendar_to_ics sample_lib first_run sample_document =
       Inr [\<lparr>c_uid = JStr ''aws-change-calendar-6f1c2c1e-8a46-4c7b-9d57-0c1f7a2b3d4e'',
             c_summary = JStr ''AWS Change Calendar Event'',
             c_dtstart = Some (midnight 2024 5 3), c_dtend = None,
             c_description = JStr [], c_categories = ''AWS-Change-Calendar''\<rparr>]
   \<and> periods_layout sample_lib legacy_document [sample_record]
   \<and> normalize_aws_calendar_to_ics sample_lib first_run legacy_document =
       Inr [\<lparr>c_uid = JStr ''aws-change-calendar-6f1c2c1e-8a46-4c7b-9d57-0c1f7a2b3d4e'',
             c_summary = JStr ''AWS Change Calendar: Unknown'',
             c_dtstart = Some (midnight 2024 5 3), c_dtend = None,
             c_description = JStr ''AWS Change Calendar period: '',
             c_categories = ''AWS-Change-Calendar''\<rparr>]"
  using unparsable_dates_yield_None [of sample_lib "JStr ''someday''" sample_document
      "[sample_record]" first_run "[]"]
    unparsable_dates_yield_None [of sample_lib "JStr ''someday''" legacy_document
      "[]" first_run "[sample_record]"]
    sample_dates(2,3) sample_layouts(1,2) sample_run [of first_run] legacy_run [of first_run]
  by (simp add: first_run_def)

text \<open>
  Claim C8 as the specification words it fails for a period of the older layout whose
  start is the empty string: no format parses it, and the adapter returns no event for the
  period, so no event carries the start \<open>None\<close>.
\<close>

theorem empty_start_period_skipped_counterexample:
  "periods_layout sample_lib blank_document [blank_period]
   \<and> field_of blank_period ''start'' = JStr []
   \<and> unparsable sample_lib (JStr [])
   \<and> normalize_aws_calendar_to_ics sample_lib first_run blank_document = Inr []"
proof -
  have l: "periods_layout sample_lib blank_document [blank_period]"
    unfolding periods_layout_def sample_loads
    by (simp add: blank_calendar_def blank_period_def is_object_def field_of_def)
  have f: "field_of blank_period ''start'' = JStr []"
    by (simp add: blank_period_def field_of_def)
  have u: "unparsable sample_lib (JStr [])"
    by (simp add: unparsable_def aws_formats_def sample_lib_def)
  have "normalize_body sample_lib first_run blank_document
      = periods_loop sample_lib first_run 0 blank_calendar [blank_period]"
    unfolding normalize_body_def sample_loads by (simp add: blank_calendar_def)
  also have "\<dots> = Inr []"
    by (simp add: blank_calendar_def blank_period_def normalize_period_def)
  finally have "normalize_aws_calendar_to_ics sample_lib first_run blank_document = Inr []"
    by (rule normalize_Inr)
  with l f u show ?thesis by simp
qed

lemma events_layout_uid:
  assumes "events_layout lib document records" and "i < length records"
    and "lacks_id (records ! i)"
  shows "\<exists>run. normalize_aws_calendar_to_ics lib uuid4 document = Inr run
           \<and> c_uid (run ! i) = JStr (''aws-change-calendar-'' @ uuid4 i)"
proof -
  from events_layout_result [OF assms(1), of uuid4] obtain evs where
    r: "normalize_aws_calendar_to_ics lib uuid4 document = Inr evs"
    and e: "\<forall>i<length records. normalize_event lib (uuid4 i) (records ! i) = Inr (evs ! i)"
    by blast
  from assms(2) have o: "is_object (records ! i)"
    using layouts_objects(1) [OF assms(1)] by (simp add: list_all_length)
  from e assms(2) have n: "normalize_event lib (uuid4 i) (records ! i) = Inr (evs ! i)" by blast
  from event_dates(3) [OF o n assms(3)] r show ?thesis by blast
qed

lemma periods_layout_uid:
  assumes "periods_layout lib document periods" and "i < length (filter has_times periods)"
  shows "\<exists>run. normalize_aws_calendar_to_ics lib uuid4 document = Inr run
           \<and> c_uid (run ! i) = JStr (''aws-change-calendar-'' @ uuid4 i)"
proof -
  from periods_layout_result [OF assms(1), of uuid4] obtain evs doc where
    r: "normalize_aws_calendar_to_ics lib uuid4 document = Inr evs"
    and e: "\<forall>i<length (filter has_times periods).
              normalize_period lib (uuid4 i) (JObj doc) (filter has_times periods ! i)
                = Inr (Some (evs ! i))"
    by blast
  from assms(2) have o: "is_object (filter has_times periods ! i)"
    using filter_objects [OF layouts_objects(2) [OF assms(1)], of has_times]
    by (simp add: list_all_length)
  from e assms(2) have n: "normalize_period lib (uuid4 i) (JObj doc) (filter has_times periods ! i)
      = Inr (Some (evs ! i))" by blast
  from period_dates(3) [OF o n] r show ?thesis by blast
qed

lemma two_runs:
  assumes "\<exists>run. normalize_aws_calendar_to_ics lib uuid4 document = Inr run
           \<and> c_uid (run ! i) = JStr (''aws-change-calendar-'' @ uuid4 i)"
    and "\<exists>run. normalize_aws_calendar_to_ics lib uuid4' document = Inr run
           \<and> c_uid (run ! i) = JStr (''aws-change-calendar-'' @ uuid4' i)"
  shows "\<exists>run1 run2.
           normalize_aws_calendar_to_ics lib uuid4 document = Inr run1
           \<and> normalize_aws_calendar_to_ics lib uuid4' document = Inr run2
           \<and> c_uid (run1 ! i) = JStr (''aws-change-calendar-'' @ uuid4 i)
           \<and> c_uid (run2 ! i) = JStr (''aws-change-calendar-'' @ uuid4' i)
           \<and> ((c_uid (run1 ! i) = c_uid (run2 ! i)) = (uuid4 i = uuid4' i))"
proof -
  from assms obtain run1 run2 where
    r: "normalize_aws_calendar_to_ics lib uuid4 document = Inr run1"
      "normalize_aws_calendar_to_ics lib uuid4' document = Inr run2"
    and u: "c_uid (run1 ! i) = JStr (''aws-change-calendar-'' @ uuid4 i)"
      "c_uid (run2 ! i) = JStr (''aws-change-calendar-'' @ uuid4' i)"
    by blast
  have "(c_uid (run1 ! i) = c_uid (run2 ! i)) = (uuid4 i = uuid4' i)"
    unfolding u by simp
  with r u show ?thesis by blast
qed

text \<open>
  Claim C9, as the code has it. The placeholder uid of a record without \<^verbatim>\<open>id\<close>, and of
  every period of the older layout, is \<^verbatim>\<open>aws-change-calendar-\<close> followed by the uuid that
  \<^verbatim>\<open>uuid.uuid4()\<close> returns for that record in that run. Two runs on the same document give
  the record the same uid exactly when the two uuids drawn for it are the same.
\<close>

theorem placeholder_uid_is_the_draw:
  "(events_layout lib document records \<and> i < length records \<and> lacks_id (records ! i) \<longrightarrow>
      (\<exists>run1 run2.
           normalize_aws_calendar_to_ics lib uuid4 document = Inr run1
           \<and> normalize_aws_calendar_to_ics lib uuid4' document = Inr run2
           \<and> c_uid (run1 ! i) = JStr (''aws-change-calendar-'' @ uuid4 i)
           \<and> c_uid (run2 ! i) = JStr (''aws-change-calendar-'' @ uuid4' i)
           \<and> ((c_uid (run1 ! i) = c_uid (run2 ! i)) = (uuid4 i = uuid4' i))))
   \<and> (periods_layout lib document periods \<and> i < length (filter has_times periods) \<longrightarrow>
      (\<exists>run1 run2.
           normalize_aws_calendar_to_ics lib uuid4 document = Inr run1
           \<and> normalize_aws_calendar_to_ics lib uuid4' document = Inr run2
           \<and> c_uid (run1 ! i) = JStr (''aws-change-calendar-'' @ uuid4 i)
           \<and> c_uid (run2 ! i) = JStr (''aws-change-calendar-'' @ uuid4' i)
           \<and> ((c_uid (run1 ! i) = c_uid (run2 ! i)) = (uuid4 i = uuid4' i))))"
proof (intro conjI impI)
  assume a: "events_layout lib document records \<and> i < length records \<and> lacks_id (records ! i)"
  then have a1: "events_layout lib document records" and a2: "i < length records"
    and a3: "lacks_id (records ! i)" by blast+
  show "\<exists>run1 run2.
           normalize_aws_calendar_to_ics lib uuid4 document = Inr run1
           \<and> normalize_aws_calendar_to_ics lib uuid4' document = Inr run2
           \<and> c_uid (run1 ! i) = JStr (''aws-change-calendar-'' @ uuid4 i)
           \<and> c_uid (run2 ! i) = JStr (''aws-change-calendar-'' @ uuid4' i)
           \<and> ((c_uid (run1 ! i) = c_uid (run2 ! i)) = (uuid4 i = uuid4' i))"
    by (rule two_runs [OF events_layout_uid [OF a1 a2 a3] events_layout_uid [OF a1 a2 a3]])
next
  assume a: "periods_layout lib document periods \<and> i < length (filter has_times periods)"
  then have a1: "periods_layout lib document periods"
    and a2: "i < length (filter has_times periods)" by blast+
  show "\<exists>run1 run2.
           normalize_aws_calendar_to_ics lib uuid4 document = Inr run1
           \<and> normalize_aws_calendar_to_ics lib uuid4' document = Inr run2
           \<and> c_uid (run1 ! i) = JStr (''aws-change-calendar-'' @ uuid4 i)
           \<and> c_uid (run2 ! i) = JStr (''aws-change-calendar-'' @ uuid4' i)
           \<and> ((c_uid (run1 ! i) = c_uid (run2 ! i)) = (uuid4 i = uuid4' i))"
    by (rule two_runs [OF periods_layout_uid [OF a1 a2] periods_layout_uid [OF a1 a2]])
qed

text \<open>The uids of the two runs on the sample documents.\<close>

theorem placeholder_uid_is_the_draw_witness:
  "events_layout sample_lib sample_document [sample_record]
   \<and> lacks_id ([sample_record] ! 0)
   \<and> periods_layout sample_lib legacy_document [sample_record]
   \<and> filter has_times [sample_record] = [sample_record]
   \<and> map c_uid (projr (normalize_aws_calendar_to_ics sample_lib first_run sample_document))
       = [JStr ''aws-change-calendar-6f1c2c1e-8a46-4c7b-9d57-0c1f7a2b3d4e'']
   \<and> map c_uid (projr (normalize_aws_calendar_to_ics sample_lib first_run legacy_document))
       = [JStr ''aws-change-calendar-6f1c2c1e-8a46-4c7b-9d57-0c1f7a2b3d4e'']
   \<and> map c_uid (projr (normalize_aws_calendar_to_ics sample_lib second_run legacy_document))
       = [JStr ''aws-change-calendar-b2a7d9f0-3e15-4d68-a1c4-5e6f7a8b9c0d'']"
proof -
  have f: "filter has_times [sample_record] = [sample_record]"
    using sample_layouts(4) by simp
  have l: "lacks_id ([sample_record] ! 0)" using sample_layouts(3) by simp
  note t1 = placeholder_uid_is_the_draw [of sample_lib sample_document "[sample_record]" 0
      first_run first_run "[]"]
  note t2 = placeholder_uid_is_the_draw [of sample_lib legacy_document "[]" 0
      first_run second_run "[sample_record]"]
  from t1 sample_layouts(1) l obtain a1 a2 where
    a: "normalize_aws_calendar_to_ics sample_lib first_run sample_document = Inr a1"
      "c_uid (a1 ! 0) = JStr (''aws-change-calendar-'' @ first_run 0)"
    by auto
  from t2 sample_layouts(2) f obtain b1 b2 where
    b: "normalize_aws_calendar_to_ics sample_lib first_run legacy_document = Inr b1"
      "normalize_aws_calendar_to_ics sample_lib second_run legacy_document = Inr b2"
      "c_uid (b1 ! 0) = JStr (''aws-change-calendar-'' @ first_run 0)"
      "c_uid (b2 ! 0) = JStr (''aws-change-calendar-'' @ second_run 0)"
    by auto
  from a(1) sample_run [of first_run] have la: "length a1 = 1" by auto
  from b(1) legacy_run [of first_run] have lb1: "length b1 = 1" by auto
  from b(2) legacy_run [of second_run] have lb2: "length b2 = 1" by auto
  have one: "\<And>xs :: canonical_event list. length xs = 1 \<Longrightarrow> map c_uid xs = [c_uid (xs ! 0)]"
    by (simp add: length_Suc_conv) auto
  have "map c_uid a1 = [JStr ''aws-change-calendar-6f1c2c1e-8a46-4c7b-9d57-0c1f7a2b3d4e'']"
    using one [OF la] a(2) by (simp add: first_run_def)
  moreover have "map c_uid b1 = [JStr ''aws-change-calendar-6f1c2c1e-8a46-4c7b-9d57-0c1f7a2b3d4e'']"
    using one [OF lb1] b(3) by (simp add: first_run_def)
  moreover have "map c_uid b2 = [JStr ''aws-change-calendar-b2a7d9f0-3e15-4d68-a1c4-5e6f7a8b9c0d'']"
    using one [OF lb2] b(4) by (simp add: second_run_def)
  ultimately show ?thesis using sample_layouts(1,2) l f a(1) b(1,2) by simp
qed

text \<open>
  Two runs on the sample document, which differ in the uuid drawn, give its record two
  different uids.
\<close>

theorem two_runs_differ_counterexample:
  "lacks_id sample_record
   \<and> normalize_aws_calendar_to_ics sample_lib first_run sample_document =
       Inr [\<lparr>c_uid = JStr ''aws-change-calendar-6f1c2c1e-8a46-4c7b-9d57-0c1f7a2b3d4e'',
             c_summary = JStr ''AWS Change Calendar Event'',
             c_dtstart = Some (midnight 2024 5 3), c_dtend = None,
             c_description = JStr [], c_categories = ''AWS-Change-Calendar''\<rparr>]
   \<and> normalize_aws_calendar_to_ics sample_lib second_run sample_document =
       Inr [\<lparr>c_uid = JStr ''aws-change-calendar-b2a7d9f0-3e15-4d68-a1c4-5e6f7a8b9c0d'',
             c_summary = JStr ''AWS Change Calendar Event'',
             c_dtstart = Some (midnight 2024 5 3), c_dtend = None,
             c_description = JStr [], c_categories = ''AWS-Change-Calendar''\<rparr>]
   \<and> normalize_aws_calendar_to_ics sample_lib first_run sample_document
       \<noteq> normalize_aws_calendar_to_ics sample_lib second_run sample_document"
  using sample_layouts(3) sample_run [of first_run] sample_run [of second_run]
  by (simp add: first_run_def second_run_def)

end
